theory Spec2Isabelle
  imports Main "HOL-Library.Multiset"
begin

section \<open>JavaScript strings and arrays\<close>

text \<open>
  A JavaScript string is modelled as a \<^typ>\<open>string\<close>: a list of code units, here the
  code units below 256. \<open>length\<close> is the \<open>.length\<close> of the source and \<open>take n\<close> is
  \<open>.substring(0, n)\<close>.

  \<open>isWhiteSpace\<close> is the set that both \<open>String.prototype.trim\<close> and the regular
  expression class \<open>\s\<close> use, cut to this range: tab, line feed, vertical tab, form
  feed, carriage return, space and no-break space.
\<close>

definition isWhiteSpace :: "char \<Rightarrow> bool" where
  "isWhiteSpace c = (of_char c \<in> {9, 10, 11, 12, 13, 32, 160 :: nat})"

definition trim :: "string \<Rightarrow> string" where
  "trim s = rev (dropWhile isWhiteSpace (rev (dropWhile isWhiteSpace s)))"

text \<open>
  \<open>toLowerCase\<close>: the letters A to Z and the upper-case letters of the Latin-1 block
  (all of 0xC0 to 0xDE but the multiplication sign 0xD7) move up by 0x20, which sets bit 5.
\<close>

definition isUpperCase :: "char \<Rightarrow> bool" where
  "isUpperCase c = (let n = of_char c :: nat in
     (65 \<le> n \<and> n \<le> 90) \<or> (192 \<le> n \<and> n \<le> 222 \<and> n \<noteq> 215))"

definition toLowerChar :: "char \<Rightarrow> char" where
  "toLowerChar c = (if isUpperCase c
     then (case c of Char b0 b1 b2 b3 b4 b5 b6 b7 \<Rightarrow> Char b0 b1 b2 b3 b4 True b6 b7)
     else c)"

definition toLowerCase :: "string \<Rightarrow> string" where
  "toLowerCase s = map toLowerChar s"

text \<open>
  \<open>s.split(sep)\<close> for a one-character separator: the pieces between the separators, so
  the result has one more element than the string has separators, and the empty string
  gives one empty piece.
\<close>

fun split :: "char \<Rightarrow> string \<Rightarrow> string list" where
  "split sep [] = [[]]"
| "split sep (c # cs) =
     (let pieces = split sep cs
      in if c = sep then [] # pieces else (c # hd pieces) # tl pieces)"

text \<open>The decimal text of a number, as a template literal prints it.\<close>

function string_of_nat :: "nat \<Rightarrow> string" where
  "string_of_nat n =
     (if n < 10 then [char_of (48 + n)]
      else string_of_nat (n div 10) @ [char_of (48 + n mod 10)])"
  by pat_completeness auto
termination
  by (relation "measure id") auto

text \<open>
  \<open>Array.prototype.sort(cmp)\<close> is a stable sort: an element goes before another when the
  comparator is negative, and elements the comparator calls equal keep the order they had.
  The insertion below puts \<open>x\<close>, which came first in the array, before the first element
  it does not have to follow.
\<close>

fun insertSorted :: "('a \<Rightarrow> 'a \<Rightarrow> int) \<Rightarrow> 'a \<Rightarrow> 'a list \<Rightarrow> 'a list" where
  "insertSorted cmp x [] = [x]"
| "insertSorted cmp x (y # ys) =
     (if cmp x y \<le> 0 then x # y # ys else y # insertSorted cmp x ys)"

definition array_sort :: "('a \<Rightarrow> 'a \<Rightarrow> int) \<Rightarrow> 'a list \<Rightarrow> 'a list" where
  "array_sort cmp xs = foldr (insertSorted cmp) xs []"

text \<open>\<open>xs.slice(0, end)\<close>: a negative \<open>end\<close> counts from the end of the array.\<close>

definition slice0 :: "int \<Rightarrow> 'a list \<Rightarrow> 'a list" where
  "slice0 end xs =
     (if end < 0 then take (nat (int (length xs) + end)) xs else take (nat end) xs)"

text \<open>
  \<open>parseInt(q) || d\<close>: the parsed query parameter is \<open>None\<close> when \<open>parseInt\<close> gives
  \<open>NaN\<close> (the parameter is absent or does not start with a number); \<open>NaN\<close> and \<open>0\<close>
  are falsy and give the default.
\<close>

definition orDefault :: "int option \<Rightarrow> int \<Rightarrow> int" where
  "orDefault q d = (case q of None \<Rightarrow> d | Some n \<Rightarrow> if n = 0 then d else n)"

section \<open>The Chat model\<close>

text \<open>
  The message subdocument and the chat document of the Chat schema. Dates are
  milliseconds since the epoch. An \<open>_id\<close> is the 24 hexadecimal digits of an ObjectId,
  in lower case, as the driver prints it. The \<open>updatedAt\<close> stamp that Mongoose
  maintains is read by no handler and is left out. The message ids come from the clock
  and a random suffix; \<open>unique: true\<close> on them makes the database build a unique index
  on \<open>messages.messageId\<close> of the collection, modelled below with \<open>save\<close>.
\<close>

datatype sender = User | AI

record chat_message =
  content :: string
  sender :: sender
  timestamp :: int
  messageId :: string

record chat =
  chat_id :: string
  title :: string
  userId :: string
  messages :: "chat_message list"
  isActive :: bool
  lastMessageAt :: int
  createdAt :: int

text \<open>
  \<open>addMessage\<close> pushes a message and moves \<open>lastMessageAt\<close>. The message id (time and a
  random suffix) and the clock reading are inputs. Pushing onto the document array casts
  the object to the message schema, whose \<open>trim: true\<close> setter trims the content.
\<close>

definition addMessage :: "string \<Rightarrow> sender \<Rightarrow> string \<Rightarrow> int \<Rightarrow> chat \<Rightarrow> chat" where
  "addMessage c s mid now ch =
     ch\<lparr>messages := messages ch @
          [\<lparr>content = trim c, sender = s, timestamp = now, messageId = mid\<rparr>],
        lastMessageAt := now\<rparr>"

text \<open>
  \<open>getRecentMessages\<close>: sort by timestamp, newest first, keep the first \<open>limit\<close>,
  reverse. The sort works on the array of the document in memory; no handler saves the
  document afterwards.
\<close>

definition getRecentMessages :: "int \<Rightarrow> chat \<Rightarrow> chat_message list" where
  "getRecentMessages limit ch =
     rev (slice0 limit (array_sort (\<lambda>a b. timestamp b - timestamp a) (messages ch)))"

definition getMessageCount :: "chat \<Rightarrow> nat" where
  "getMessageCount ch = length (messages ch)"

subsection \<open>Validation, hooks and saving\<close>

text \<open>
  What a handler can throw: a reference to an identifier that is not declared, a Mongoose
  validation error, a Mongoose cast error, a duplicate key reported by the database
  (code 11000), and any other error of the database driver.
\<close>

datatype js_error =
    ReferenceError string
  | ValidationError
  | CastError
  | DuplicateKey
  | MongoError

text \<open>
  The validators of the two schemas run on the stored value, that is after the
  \<open>trim\<close> setter: message content is required (the empty string fails), at least 1 and
  at most 5000 long; a title is required and at most 100 long.
\<close>

definition validContent :: "string \<Rightarrow> bool" where
  "validContent c = (c \<noteq> [] \<and> length c \<le> 5000)"

definition validTitle :: "string \<Rightarrow> bool" where
  "validTitle t = (t \<noteq> [] \<and> length t \<le> 100)"

text \<open>
  The pre-save hook, which Mongoose runs after validation: \<open>lastMessageAt\<close> follows the
  last message, and a new document with messages takes its title from the first one.
\<close>

definition preSave :: "bool \<Rightarrow> chat \<Rightarrow> chat" where
  "preSave isNew ch =
     (let ch1 = (if messages ch = [] then ch
                 else ch\<lparr>lastMessageAt := timestamp (last (messages ch))\<rparr>)
      in if isNew \<and> messages ch \<noteq> [] \<and> content (hd (messages ch)) \<noteq> []
         then ch1\<lparr>title := take 50 (content (hd (messages ch))) @
                  (if length (content (hd (messages ch))) > 50 then ''...'' else [])\<rparr>
         else ch1)"

text \<open>
  The unique index on \<open>messages.messageId\<close>. The index is multikey: a document has
  one key for the id of each of its messages, and the null key (\<open>None\<close>) when its array
  of messages is empty. The database refuses, with error 11000, a write that would leave a
  key held by two documents; two messages of one document may share their id.
\<close>

definition index_keys :: "chat \<Rightarrow> string option list" where
  "index_keys ch =
     (if messages ch = [] then [None] else map (\<lambda>m. Some (messageId m)) (messages ch))"

definition duplicateKey :: "chat list \<Rightarrow> chat \<Rightarrow> bool" where
  "duplicateKey others ch =
     list_ex (\<lambda>d. list_ex (\<lambda>k. k \<in> set (index_keys d)) (index_keys ch)) others"

text \<open>
  The collection is the list of its documents in insertion order. \<open>save\<close> validates the
  whole document, the title and every message, whether the document is new or was read
  from the collection; then the database checks the unique index against the other
  documents. A new document is inserted under the \<open>_id\<close> that the driver generated
  (the statements that need this id to be new say so); a document that was read replaces
  the stored document of its \<open>_id\<close>. Both return the document as the hook left it.
\<close>

fun updateOne :: "('a \<Rightarrow> bool) \<Rightarrow> ('a \<Rightarrow> 'a) \<Rightarrow> 'a list \<Rightarrow> 'a list" where
  "updateOne P f [] = []"
| "updateOne P f (x # xs) = (if P x then f x # xs else x # updateOne P f xs)"

definition validChat :: "chat \<Rightarrow> bool" where
  "validChat ch =
     (validTitle (title ch) \<and> list_all (\<lambda>m. validContent (content m)) (messages ch))"

definition saveNew :: "chat list \<Rightarrow> chat \<Rightarrow> js_error + (chat \<times> chat list)" where
  "saveNew db ch =
     (if \<not> validChat ch then Inl ValidationError
      else if duplicateKey db ch then Inl DuplicateKey
      else Inr (preSave True ch, db @ [preSave True ch]))"

definition saveExisting :: "chat list \<Rightarrow> chat \<Rightarrow> js_error + (chat \<times> chat list)" where
  "saveExisting db ch =
     (if \<not> validChat ch then Inl ValidationError
      else if duplicateKey (filter (\<lambda>d. chat_id d \<noteq> chat_id ch) db) ch then Inl DuplicateKey
      else Inr (preSave False ch,
          updateOne (\<lambda>d. chat_id d = chat_id ch) (\<lambda>d. preSave False ch) db))"

text \<open>
  Casting a string to an ObjectId: 24 hexadecimal digits, compared without regard to
  case; anything else is a cast error. \<open>isValidObjectId\<close> is also the test
  \<open>/^[0-9a-fA-F]{24}$/\<close> of the send handler.
\<close>

definition isHexDigit :: "char \<Rightarrow> bool" where
  "isHexDigit c = (c \<in> set ''0123456789abcdefABCDEF'')"

definition isValidObjectId :: "string \<Rightarrow> bool" where
  "isValidObjectId s = (length s = 24 \<and> list_all isHexDigit s)"

definition castObjectId :: "string \<Rightarrow> js_error + string" where
  "castObjectId s = (if isValidObjectId s then Inr (toLowerCase s) else Inl CastError)"

text \<open>\<open>Chat.findOne({ _id, userId })\<close>, after the cast of the \<open>_id\<close>.\<close>

definition Chat_findOne :: "chat list \<Rightarrow> string \<Rightarrow> string \<Rightarrow> chat option" where
  "Chat_findOne db oid uid = find (\<lambda>c. chat_id c = oid \<and> userId c = uid) db"

text \<open>
  \<open>Chat.createNew\<close>: a new document titled with the first 50 characters of the message,
  the message pushed, the document saved. \<open>oid\<close> is the generated \<open>_id\<close> and
  \<open>created\<close> the clock at construction.
\<close>

definition newChat :: "string \<Rightarrow> int \<Rightarrow> string \<Rightarrow> string \<Rightarrow> chat" where
  "newChat oid created uid t =
     \<lparr>chat_id = oid, title = trim t, userId = uid, messages = [], isActive = True,
      lastMessageAt = created, createdAt = created\<rparr>"

definition createNew ::
  "chat list \<Rightarrow> string \<Rightarrow> int \<Rightarrow> string \<Rightarrow> string \<Rightarrow> sender \<Rightarrow> string \<Rightarrow> int
     \<Rightarrow> js_error + (chat \<times> chat list)" where
  "createNew db oid created uid firstMessage s mid now =
     saveNew db
       (addMessage firstMessage s mid now
          (newChat oid created uid
             (take 50 firstMessage @ (if length firstMessage > 50 then ''...'' else []))))"

section \<open>The User model\<close>

record user =
  user_id :: string
  name :: string
  email :: string
  password :: string

section \<open>The AI service\<close>

text \<open>
  What the outside world answers to one call of \<open>generateAIResponse\<close>: \<open>fetch\<close>
  rejects with a message, or there is a response with a status, the text that
  \<open>JSON.stringify\<close> gives for its error body, and what reading the body of a
  successful response leads to: an exception (the body is not JSON, or the path
  \<open>candidates[0].content.parts[0].text\<close> cannot be read as a string), no candidate with
  content, or the text of the first candidate.
\<close>

datatype gemini_body = BodyThrows string | NoCandidate | CandidateText string

datatype upstream = FetchRejects string | HttpResponse nat string gemini_body

record ai_response =
  ai_success :: bool
  ai_content :: string
  ai_error :: "string option"

definition ai_failure :: "string \<Rightarrow> string \<Rightarrow> ai_response" where
  "ai_failure c e = \<lparr>ai_success = False, ai_content = c, ai_error = Some e\<rparr>"

text \<open>
  \<open>validateGeminiConfig\<close>. The key is the environment variable, \<open>None\<close> when it is not
  set. The model name has a default in the source, so its test never fails.
\<close>

definition config_missing :: string where
  "config_missing = ''GEMINI_API_KEY is not set or is using placeholder value. Please set a real API key from https://aistudio.google.com/app/apikey''"

definition validateGeminiConfig :: "string option \<Rightarrow> string option" where
  "validateGeminiConfig key =
     (if key = None \<or> key = Some [] \<or> key = Some ''your-gemini-api-key-here''
      then Some config_missing else None)"

text \<open>
  \<open>generateAIResponse\<close>, with its result in each branch. The conversation text it sends
  has no part in which branch is taken, so the chat history is not an argument here.
  \<open>validateGeminiConfig\<close> gives \<open>Some\<close> of the message when the check fails.
\<close>

definition generateAIResponse :: "string option \<Rightarrow> upstream \<Rightarrow> string \<Rightarrow> ai_response" where
  "generateAIResponse key up userMessage =
     (case validateGeminiConfig key of
        Some m \<Rightarrow>
          ai_failure ''AI service is not configured. Please set up your Gemini API key in the .env file.'' m
      | None \<Rightarrow>
          if userMessage = [] \<or> trim userMessage = []
          then ai_failure ''Please provide a valid message.'' ''Empty message provided''
          else (case up of
             FetchRejects e \<Rightarrow>
               ai_failure ''AI service is temporarily unavailable. Please try again later.'' e
           | HttpResponse st errorData body \<Rightarrow>
               if st < 200 \<or> 299 < st then
                 (if st = 401 then
                    ai_failure ''AI service authentication failed. Please check API key configuration.''
                      ''Invalid API key''
                  else if st = 429 then
                    ai_failure ''AI service is currently busy. Please try again in a moment.''
                      ''Rate limit exceeded''
                  else if 500 \<le> st then
                    ai_failure ''AI service is temporarily unavailable. Please try again later.''
                      ''Server error''
                  else
                    ai_failure ''Failed to get AI response. Please try again.''
                      (''API error: '' @ string_of_nat st @ '' - '' @ errorData))
               else (case body of
                  BodyThrows e \<Rightarrow>
                    ai_failure ''AI service is temporarily unavailable. Please try again later.'' e
                | NoCandidate \<Rightarrow>
                    ai_failure ''AI service returned an unexpected response format.''
                      ''Invalid response format''
                | CandidateText t \<Rightarrow>
                    \<lparr>ai_success = True, ai_content = t, ai_error = None\<rparr>)))"

section \<open>The chat controller\<close>

text \<open>
  A JSON response: the HTTP status, the \<open>success\<close> and \<open>message\<close> fields, and the
  \<open>data\<close> object when there is one.
\<close>

record 'd response =
  status :: nat
  success :: bool
  message :: string
  data :: "'d option"

definition failure :: "nat \<Rightarrow> string \<Rightarrow> 'd response" where
  "failure st m = \<lparr>status = st, success = False, message = m, data = None\<rparr>"

subsection \<open>sendMessage\<close>

text \<open>
  What one request reads from outside the handler: the \<open>_id\<close> and the clock of a chat it
  creates, the id and the clock of the two messages it pushes, the API key and the answer
  of the upstream service.
\<close>

record send_env =
  new_chat_id :: string
  new_chat_time :: int
  user_msg_id :: string
  user_msg_time :: int
  ai_msg_id :: string
  ai_msg_time :: int
  api_key :: "string option"
  upstream_reply :: upstream

record send_data =
  chatId :: string
  data_messages :: "chat_message list"
  messageCount :: nat
  aiServiceStatus :: string
  aiError :: "string option"

text \<open>
  The document-valued identifiers that the body of \<open>sendMessage\<close> can name. It declares
  \<open>message\<close>, \<open>chatId\<close>, \<open>userId\<close> (the \<open>_id\<close> of \<open>req.user\<close>) and \<open>chat\<close>; the module
  imports \<open>Chat\<close> and \<open>generateAIResponse\<close>. None of them is a user document, and there
  is no identifier \<open>user\<close>: evaluating one throws a ReferenceError.
\<close>

definition sendMessage_scope :: "string \<Rightarrow> user option" where
  "sendMessage_scope x = None"

definition resolve_identifier :: "(string \<Rightarrow> 'v option) \<Rightarrow> string \<Rightarrow> js_error + 'v" where
  "resolve_identifier scope x =
     (case scope x of None \<Rightarrow> Inl (ReferenceError x) | Some v \<Rightarrow> Inr v)"

text \<open>
  Lines 61 to 103: the chat the message goes to, with the user's message pushed and
  saved. A \<open>chatId\<close> that is absent or empty is falsy and a chat is created. One that
  is not an ObjectId takes the branch that builds a chat with \<open>userId: user._id\<close>.
  Otherwise the chat is looked up for this owner: a 404 response when there is none.
  \<open>Inl\<close> of an error is what the handler's \<open>catch\<close> receives.
\<close>

definition sendMessage_target ::
  "send_env \<Rightarrow> chat list \<Rightarrow> string \<Rightarrow> string \<Rightarrow> string option
     \<Rightarrow> js_error + (send_data response + (chat \<times> chat list))" where
  "sendMessage_target env db uid m body_chatId =
     (case (case body_chatId of None \<Rightarrow> None | Some c \<Rightarrow> if c = [] then None else Some c) of
        None \<Rightarrow>
          (case createNew db (new_chat_id env) (new_chat_time env) uid (trim m) User
                  (user_msg_id env) (user_msg_time env) of
             Inl e \<Rightarrow> Inl e
           | Inr r \<Rightarrow> Inr (Inr r))
      | Some c \<Rightarrow>
          if isValidObjectId c then
            (case castObjectId c of
               Inl e \<Rightarrow> Inl e
             | Inr oid \<Rightarrow>
                 (case Chat_findOne db oid uid of
                    None \<Rightarrow> Inr (Inl (failure 404 ''Chat not found or access denied''))
                  | Some ch \<Rightarrow>
                      (case saveExisting db
                              (addMessage (trim m) User (user_msg_id env) (user_msg_time env) ch) of
                         Inl e \<Rightarrow> Inl e
                       | Inr r \<Rightarrow> Inr (Inr r))))
          else
            (case resolve_identifier sendMessage_scope ''user'' of
               Inl e \<Rightarrow> Inl e
             | Inr u \<Rightarrow>
                 (case saveNew db
                         (addMessage (trim m) User (user_msg_id env) (user_msg_time env)
                            (newChat (new_chat_id env) (new_chat_time env) (user_id u)
                               (take 50 (trim m) @ ''...''))) of
                    Inl e \<Rightarrow> Inl e
                  | Inr r \<Rightarrow> Inr (Inr r))))"

text \<open>
  The handler. The request body fields are strings when they are present. The result is
  the response and the collection as the request leaves it. Every error thrown inside
  the \<open>try\<close> becomes the 500 response; what was saved before it stays saved.
\<close>

definition sendMessage ::
  "send_env \<Rightarrow> chat list \<Rightarrow> user \<Rightarrow> string option \<Rightarrow> string option
     \<Rightarrow> send_data response \<times> chat list" where
  "sendMessage env db reqUser body_message body_chatId =
     (case body_message of
        None \<Rightarrow> (failure 400 ''Message content is required'', db)
      | Some m \<Rightarrow>
          if m = [] \<or> trim m = [] then (failure 400 ''Message content is required'', db)
          else if length m > 5000 then (failure 400 ''Message cannot exceed 5000 characters'', db)
          else (case sendMessage_target env db (user_id reqUser) m body_chatId of
             Inl e \<Rightarrow> (failure 500 ''Internal server error while sending message'', db)
           | Inr (Inl resp) \<Rightarrow> (resp, db)
           | Inr (Inr (ch, db1)) \<Rightarrow>
               (let aiResponse = generateAIResponse (api_key env) (upstream_reply env) m in
                case saveExisting db1
                       (addMessage (ai_content aiResponse) AI (ai_msg_id env) (ai_msg_time env) ch) of
                  Inl e \<Rightarrow> (failure 500 ''Internal server error while sending message'', db1)
                | Inr (ch2, db2) \<Rightarrow>
                    (\<lparr>status = 200, success = True, message = ''Message sent successfully'',
                      data = Some \<lparr>chatId = chat_id ch2,
                        data_messages = getRecentMessages 20 ch2,
                        messageCount = getMessageCount ch2,
                        aiServiceStatus = (if ai_success aiResponse then ''success'' else ''error''),
                        aiError = (if ai_success aiResponse then None else ai_error aiResponse)\<rparr>\<rparr>,
                     db2))))"

subsection \<open>getChatHistory\<close>

text \<open>
  The query \<open>find({ userId, isActive: true }).sort({ lastMessageAt: -1 }).skip(s).limit(l)\<close>.
  The database orders documents with equal keys as it likes; the model keeps them in
  insertion order. It rejects a negative skip; the driver sends a negative limit as its
  absolute value, and a limit of 0 is no limit.
\<close>

definition ownedActive :: "string \<Rightarrow> chat list \<Rightarrow> chat list" where
  "ownedActive uid db = filter (\<lambda>c. userId c = uid \<and> isActive c) db"

definition byLastMessageDesc :: "chat list \<Rightarrow> chat list" where
  "byLastMessageDesc cs = sort_key (\<lambda>c. - lastMessageAt c) cs"

definition Chat_find_page :: "chat list \<Rightarrow> string \<Rightarrow> int \<Rightarrow> int \<Rightarrow> js_error + chat list" where
  "Chat_find_page db uid skip limit =
     (if skip < 0 then Inl MongoError
      else if limit = 0 then Inr (drop (nat skip) (byLastMessageDesc (ownedActive uid db)))
      else Inr (take (nat \<bar>limit\<bar>) (drop (nat skip) (byLastMessageDesc (ownedActive uid db)))))"

text \<open>\<open>Math.ceil(a / b)\<close> on integers, \<open>b\<close> not zero.\<close>

definition ceil_div :: "int \<Rightarrow> int \<Rightarrow> int" where
  "ceil_div a b = - ((- a) div b)"

text \<open>
  The projection \<open>select('title lastMessageAt messageCount createdAt')\<close>: the \<open>_id\<close> and
  the three of the named paths that the schema has.
\<close>

record chat_summary =
  summary_id :: string
  summary_title :: string
  summary_lastMessageAt :: int
  summary_createdAt :: int

definition select_summary :: "chat \<Rightarrow> chat_summary" where
  "select_summary c =
     \<lparr>summary_id = chat_id c, summary_title = title c,
      summary_lastMessageAt = lastMessageAt c, summary_createdAt = createdAt c\<rparr>"

record page_info =
  currentPage :: int
  totalPages :: int
  totalChats :: nat
  hasNextPage :: bool
  hasPrevPage :: bool
  page_limit :: int

record history_data =
  chats :: "chat_summary list"
  pagination :: page_info

definition getChatHistory ::
  "chat list \<Rightarrow> user \<Rightarrow> int option \<Rightarrow> int option \<Rightarrow> history_data response" where
  "getChatHistory db reqUser query_limit query_page =
     (let limit = orDefault query_limit 20;
          page = orDefault query_page 1;
          skip = (page - 1) * limit
      in if limit > 100 then failure 400 ''Limit cannot exceed 100''
         else (case Chat_find_page db (user_id reqUser) skip limit of
            Inl e \<Rightarrow> failure 500 ''Internal server error while retrieving chat history''
          | Inr found \<Rightarrow>
              (let total = length (ownedActive (user_id reqUser) db);
                   pages = ceil_div (int total) limit
               in \<lparr>status = 200, success = True,
                    message = ''Chat history retrieved successfully'',
                    data = Some \<lparr>chats = map select_summary found,
                      pagination = \<lparr>currentPage = page, totalPages = pages,
                        totalChats = total, hasNextPage = (page < pages),
                        hasPrevPage = (page > 1), page_limit = limit\<rparr>\<rparr>\<rparr>)))"

subsection \<open>getChat\<close>

record chat_info =
  info_id :: string
  info_title :: string
  info_createdAt :: int
  info_lastMessageAt :: int
  info_messageCount :: nat
  info_isActive :: bool

record chat_data =
  data_chat :: chat_info
  chat_messages :: "chat_message list"

definition getChat :: "chat list \<Rightarrow> user \<Rightarrow> string \<Rightarrow> int option \<Rightarrow> chat_data response" where
  "getChat db reqUser param_chatId query_limit =
     (let messageLimit = orDefault query_limit 50 in
      case castObjectId param_chatId of
        Inl e \<Rightarrow> failure 400 ''Invalid chat ID format''
      | Inr oid \<Rightarrow>
          (case Chat_findOne db oid (user_id reqUser) of
             None \<Rightarrow> failure 404 ''Chat not found or access denied''
           | Some ch \<Rightarrow>
               \<lparr>status = 200, success = True, message = ''Chat retrieved successfully'',
                data = Some \<lparr>data_chat = \<lparr>info_id = chat_id ch, info_title = title ch,
                    info_createdAt = createdAt ch, info_lastMessageAt = lastMessageAt ch,
                    info_messageCount = getMessageCount ch, info_isActive = isActive ch\<rparr>,
                  chat_messages = getRecentMessages messageLimit ch\<rparr>\<rparr>))"

subsection \<open>createNewChat\<close>

record created_chat =
  created_id :: string
  created_title :: string
  created_createdAt :: int
  created_messageCount :: nat
  created_isActive :: bool

text \<open>
  \<open>oid\<close> and \<open>now\<close> are the generated \<open>_id\<close> and the clock. \<open>title || 'New Chat'\<close>
  takes the default for an absent or empty title. The handler checks nothing itself; any
  error of \<open>save\<close> is the 500 response.
\<close>

definition createNewChat ::
  "string \<Rightarrow> int \<Rightarrow> chat list \<Rightarrow> user \<Rightarrow> string option
     \<Rightarrow> created_chat response \<times> chat list" where
  "createNewChat oid now db reqUser body_title =
     (case saveNew db
             (newChat oid now (user_id reqUser)
                (case body_title of None \<Rightarrow> ''New Chat''
                 | Some t \<Rightarrow> if t = [] then ''New Chat'' else t)) of
        Inl e \<Rightarrow> (failure 500 ''Internal server error while creating new chat'', db)
      | Inr (ch, db1) \<Rightarrow>
          (\<lparr>status = 201, success = True, message = ''New chat created successfully'',
            data = Some \<lparr>created_id = chat_id ch, created_title = title ch,
              created_createdAt = createdAt ch, created_messageCount = 0,
              created_isActive = isActive ch\<rparr>\<rparr>,
           db1))"

subsection \<open>deleteChat\<close>

text \<open>
  \<open>findOneAndUpdate({ _id, userId }, { isActive: false })\<close>: the first document that
  matches gets the flag; no validator and no save hook runs.
\<close>

definition deleteChat :: "chat list \<Rightarrow> user \<Rightarrow> string \<Rightarrow> string response \<times> chat list" where
  "deleteChat db reqUser param_chatId =
     (case castObjectId param_chatId of
        Inl e \<Rightarrow> (failure 400 ''Invalid chat ID format'', db)
      | Inr oid \<Rightarrow>
          (case Chat_findOne db oid (user_id reqUser) of
             None \<Rightarrow> (failure 404 ''Chat not found or access denied'', db)
           | Some ch \<Rightarrow>
               (\<lparr>status = 200, success = True, message = ''Chat deleted successfully'',
                 data = Some (chat_id ch)\<rparr>,
                updateOne (\<lambda>c. chat_id c = oid \<and> userId c = user_id reqUser)
                  (\<lambda>c. c\<lparr>isActive := False\<rparr>) db)))"

section \<open>The authentication controller\<close>

text \<open>
  The secret of the module: the environment variable \<open>JWT_SECRET\<close>, or a default when
  the variable is not set or is empty. It is never the empty string. \<open>JWT_EXPIRES_IN\<close>
  is read the same way, with the default \<open>7d\<close>; the statements below take the number of
  seconds that jsonwebtoken reads from it, 604800 for the default.
\<close>

definition JWT_SECRET :: "string option \<Rightarrow> string" where
  "JWT_SECRET var =
     (case var of
        None \<Rightarrow> ''your-super-secret-jwt-key-change-in-production''
      | Some s \<Rightarrow> if s = [] then ''your-super-secret-jwt-key-change-in-production'' else s)"

text \<open>
  The payload that \<open>generateToken\<close> signs. Its argument \<open>sign\<close> stands for
  \<open>jwt.sign(payload, JWT_SECRET, { expiresIn: JWT_EXPIRES_IN })\<close> at the time of the call.
\<close>

record token_payload =
  payload_id :: string
  payload_email :: string
  payload_name :: string

definition token_payload_of :: "user \<Rightarrow> token_payload" where
  "token_payload_of u =
     \<lparr>payload_id = user_id u, payload_email = email u, payload_name = name u\<rparr>"

definition generateToken :: "(token_payload \<Rightarrow> string) \<Rightarrow> user \<Rightarrow> string" where
  "generateToken sign u = sign (token_payload_of u)"

subsection \<open>The jsonwebtoken library\<close>

text \<open>
  \<open>jwt.sign\<close> and \<open>jwt.verify\<close> for a secret given as a string, after the documentation
  of jsonwebtoken and of jws, which it builds on. A token is three segments joined by
  dots: the header \<open>{"alg":"HS256","typ":"JWT"}\<close> and the payload, each the base64url
  text of its JSON, and the base64url text of the HMAC of the first two segments with
  the dot between them. \<open>jwt.sign\<close> adds to the payload the time of issue \<open>iat\<close> and
  the expiry \<open>exp = iat + expiresIn\<close>, in seconds.

  The JSON and base64url codec and the HMAC are functions of the library that the model
  takes as they are: \<open>encodePayload\<close> writes the payload segment; \<open>decode\<close> reads a
  header and a payload segment as \<open>jwt.decode\<close> does, giving nothing (the header is not
  the JSON of a header), an exception (\<open>JSON.parse\<close> throws a SyntaxError on the
  payload), or the algorithm that the header names and the claims of the payload;
  \<open>hmac\<close> takes the name of the algorithm, the secret and the signing input.
\<close>

record jwt_claims =
  claims_payload :: token_payload
  claim_iat :: nat
  claim_exp :: nat

datatype decoded = Undecodable | PayloadThrows | Token string jwt_claims

record jws =
  encodePayload :: "jwt_claims \<Rightarrow> string"
  decode :: "string \<Rightarrow> string \<Rightarrow> decoded"
  hmac :: "string \<Rightarrow> string \<Rightarrow> string \<Rightarrow> string"

definition jws_header :: string where
  "jws_header = ''eyJhbGciOiJIUzI1NiIsInR5cCI6IkpXVCJ9''"


definition jwt_sign :: "jws \<Rightarrow> string \<Rightarrow> nat \<Rightarrow> nat \<Rightarrow> token_payload \<Rightarrow> string" where
  "jwt_sign lib secret expiresIn now payload =
     (let input = jws_header @ ''.'' @
            encodePayload lib
              \<lparr>claims_payload = payload, claim_iat = now, claim_exp = now + expiresIn\<rparr>
      in input @ ''.'' @ hmac lib ''HS256'' secret input)"




subsection \<open>authenticateToken\<close>




subsection \<open>The bcryptjs library\<close>

text \<open>
  \<open>bcrypt.hash(s, 12)\<close> and \<open>bcrypt.compare(s, hash)\<close>, after the documentation of
  bcryptjs. A hash is 60 characters: the salt string of 29 characters that \<open>genSalt\<close>
  drew (version, cost and 22 characters of salt), and 31 characters computed from the
  salt string and the key. The key is what the Blowfish key schedule reads of the
  password: its UTF-8 bytes and a zero byte, repeated, of which the first 72 bytes are
  used. \<open>compare\<close> refuses a hash that is not 60 long, hashes the candidate under the
  first 29 characters of the hash, and compares the result with the hash. The Blowfish
  computation itself is the argument \<open>crypt\<close>. Strings hold the code units below 256,
  whose UTF-8 form is one byte below 128 and two bytes from there on.
\<close>

definition utf8 :: "string \<Rightarrow> nat list" where
  "utf8 s =
     concat (map (\<lambda>c. if (of_char c :: nat) < 128 then [of_char c]
                        else [192 + of_char c div 64, 128 + of_char c mod 64]) s)"

definition bcrypt_key :: "string \<Rightarrow> nat list" where
  "bcrypt_key s = take 72 (concat (replicate 72 (utf8 s @ [0])))"

definition bcrypt_hash :: "(string \<Rightarrow> nat list \<Rightarrow> string) \<Rightarrow> string \<Rightarrow> string \<Rightarrow> string" where
  "bcrypt_hash crypt salt s = salt @ crypt salt (bcrypt_key s)"

definition bcrypt_compare :: "(string \<Rightarrow> nat list \<Rightarrow> string) \<Rightarrow> string \<Rightarrow> string \<Rightarrow> bool" where
  "bcrypt_compare crypt s hash = (length hash = 60 \<and> bcrypt_hash crypt (take 29 hash) s = hash)"

subsection \<open>signup\<close>

text \<open>
  The test \<open>/^[^\s@]+@[^\s@]+\.[^\s@]+$/\<close>: no white space anywhere, exactly one \<open>@\<close>
  with something before it, and after it a dot that is neither the first nor the last
  character of the rest.
\<close>

definition emailRegex :: "string \<Rightarrow> bool" where
  "emailRegex s =
     (let a = takeWhile (\<lambda>c. c \<noteq> CHR ''@'') s;
          d = drop (Suc (length a)) s
      in a \<noteq> [] \<and> length a < length s \<and> list_all (\<lambda>c. \<not> isWhiteSpace c) s \<and>
         CHR ''@'' \<notin> set d \<and> CHR ''.'' \<in> set (butlast (tl d)))"

text \<open>
  \<open>User.findByEmail\<close> looks for the lower-cased address. \<open>save\<close> on a new user runs the
  validators of the schema (name of 2 to 50 characters, address matching the pattern,
  password of at least 6), then the pre-save hook, which puts the hash in the place of
  the password: \<open>hash\<close> stands for \<open>bcrypt.hash(this.password, 12)\<close> with the salt that
  this call draws. The unique index on the address rejects a second document with the
  same one.
\<close>

definition User_findByEmail :: "user list \<Rightarrow> string \<Rightarrow> user option" where
  "User_findByEmail users e = find (\<lambda>u. email u = toLowerCase e) users"

definition saveUser ::
  "(string \<Rightarrow> string) \<Rightarrow> user list \<Rightarrow> user \<Rightarrow> js_error + (user \<times> user list)" where
  "saveUser hash users u =
     (if length (name u) < 2 \<or> 50 < length (name u) then Inl ValidationError
      else if \<not> emailRegex (email u) then Inl ValidationError
      else if length (password u) < 6 then Inl ValidationError
      else if email u \<in> set (map email users) then Inl DuplicateKey
      else Inr (u\<lparr>password := hash (password u)\<rparr>, users @ [u\<lparr>password := hash (password u)\<rparr>]))"

record signup_env =
  new_user_id :: string
  hash_password :: "string \<Rightarrow> string"
  sign_token :: "token_payload \<Rightarrow> string"

record profile =
  profile_id :: string
  profile_name :: string
  profile_email :: string

record auth_data =
  data_user :: profile
  data_token :: string

definition getPublicProfile :: "user \<Rightarrow> profile" where
  "getPublicProfile u =
     \<lparr>profile_id = user_id u, profile_name = name u, profile_email = email u\<rparr>"

definition signup ::
  "signup_env \<Rightarrow> user list \<Rightarrow> string option \<Rightarrow> string option \<Rightarrow> string option
     \<Rightarrow> auth_data response \<times> user list" where
  "signup env users body_name body_email body_password =
     (case (body_name, body_email, body_password) of
        (Some n, Some e, Some p) \<Rightarrow>
          if n = [] \<or> e = [] \<or> p = []
          then (failure 400 ''Please provide name, email, and password'', users)
          else if \<not> emailRegex e
          then (failure 400 ''Please provide a valid email address'', users)
          else if length p < 6
          then (failure 400 ''Password must be at least 6 characters long'', users)
          else (case User_findByEmail users e of
             Some existing \<Rightarrow> (failure 409 ''User with this email already exists'', users)
           | None \<Rightarrow>
               (case saveUser (hash_password env) users
                       \<lparr>user_id = new_user_id env, name = trim (trim n),
                        email = trim (toLowerCase (trim (toLowerCase e))),
                        password = p\<rparr> of
                  Inl DuplicateKey \<Rightarrow> (failure 409 ''User with this email already exists'', users)
                | Inl ValidationError \<Rightarrow> (failure 400 ''Validation error'', users)
                | Inl e \<Rightarrow> (failure 500 ''Internal server error during registration'', users)
                | Inr (u, users1) \<Rightarrow>
                    (\<lparr>status = 201, success = True, message = ''User registered successfully'',
                      data = Some \<lparr>data_user = getPublicProfile u,
                        data_token = generateToken (sign_token env) u\<rparr>\<rparr>,
                     users1)))
      | _ \<Rightarrow> (failure 400 ''Please provide name, email, and password'', users))"

subsection \<open>login\<close>

text \<open>
  \<open>comparePassword\<close> is \<open>bcrypt.compare\<close> on the stored hash. It answers \<open>false\<close>
  where \<open>bcrypt.compare\<close> throws, which it does for a hash whose salt string is not
  one; the hashes of the store are written by \<open>bcrypt.hash\<close>, and the model has no such
  case. \<open>login\<close> reads the user with the password selected; it changes nothing in the
  store.
\<close>

definition comparePassword :: "(string \<Rightarrow> nat list \<Rightarrow> string) \<Rightarrow> user \<Rightarrow> string \<Rightarrow> bool" where
  "comparePassword crypt u candidatePassword = bcrypt_compare crypt candidatePassword (password u)"

definition login ::
  "(string \<Rightarrow> nat list \<Rightarrow> string) \<Rightarrow> (token_payload \<Rightarrow> string) \<Rightarrow> user list
     \<Rightarrow> string option \<Rightarrow> string option \<Rightarrow> auth_data response" where
  "login crypt sign users body_email body_password =
     (case (body_email, body_password) of
        (Some e, Some p) \<Rightarrow>
          if e = [] \<or> p = [] then failure 400 ''Please provide email and password''
          else (case User_findByEmail users e of
             None \<Rightarrow> failure 401 ''Invalid email or password''
           | Some u \<Rightarrow>
               if \<not> comparePassword crypt u p then failure 401 ''Invalid email or password''
               else \<lparr>status = 200, success = True, message = ''Login successful'',
                     data = Some \<lparr>data_user = getPublicProfile u,
                       data_token = generateToken sign u\<rparr>\<rparr>)
      | _ \<Rightarrow> failure 400 ''Please provide email and password'')"

section \<open>The documents a send leaves behind\<close>

text \<open>
  Names for what the statements below say about \<open>sendMessage\<close>: the two messages of a
  turn, the reply of the AI service to this request, the chat that a send without
  \<open>chatId\<close> creates, a chat with one more message, the message ids that a list of
  chats holds, the chats of the collection other than a given one, the success response,
  and the fixed texts that \<open>generateAIResponse\<close> returns as content when it fails.
\<close>

definition user_message :: "send_env \<Rightarrow> string \<Rightarrow> chat_message" where
  "user_message env m =
     \<lparr>content = trim m, sender = User, timestamp = user_msg_time env,
      messageId = user_msg_id env\<rparr>"

definition reply_of :: "send_env \<Rightarrow> string \<Rightarrow> ai_response" where
  "reply_of env m = generateAIResponse (api_key env) (upstream_reply env) m"

definition ai_message :: "send_env \<Rightarrow> string \<Rightarrow> chat_message" where
  "ai_message env m =
     \<lparr>content = trim (ai_content (reply_of env m)), sender = AI,
      timestamp = ai_msg_time env, messageId = ai_msg_id env\<rparr>"

definition first_chat :: "send_env \<Rightarrow> string \<Rightarrow> string \<Rightarrow> chat" where
  "first_chat env uid m =
     \<lparr>chat_id = new_chat_id env,
      title = take 50 (trim m) @ (if length (trim m) > 50 then ''...'' else []),
      userId = uid, messages = [user_message env m], isActive = True,
      lastMessageAt = user_msg_time env, createdAt = new_chat_time env\<rparr>"

definition with_message :: "chat_message \<Rightarrow> chat \<Rightarrow> chat" where
  "with_message msg ch = ch\<lparr>messages := messages ch @ [msg], lastMessageAt := timestamp msg\<rparr>"

definition messageIds :: "chat list \<Rightarrow> string list" where
  "messageIds db = concat (map (\<lambda>d. map messageId (messages d)) db)"

definition otherChats :: "chat list \<Rightarrow> chat \<Rightarrow> chat list" where
  "otherChats db ch = filter (\<lambda>d. chat_id d \<noteq> chat_id ch) db"

definition sent_response :: "send_env \<Rightarrow> string \<Rightarrow> chat \<Rightarrow> send_data response" where
  "sent_response env m ch =
     \<lparr>status = 200, success = True, message = ''Message sent successfully'',
      data = Some \<lparr>chatId = chat_id ch, data_messages = getRecentMessages 20 ch,
        messageCount = length (messages ch),
        aiServiceStatus = (if ai_success (reply_of env m) then ''success'' else ''error''),
        aiError = (if ai_success (reply_of env m) then None else ai_error (reply_of env m))\<rparr>\<rparr>"

definition internal_error :: "send_data response" where
  "internal_error = failure 500 ''Internal server error while sending message''"

definition fallbacks :: "string list" where
  "fallbacks =
     [''AI service is not configured. Please set up your Gemini API key in the .env file.'',
      ''Please provide a valid message.'',
      ''AI service is temporarily unavailable. Please try again later.'',
      ''AI service authentication failed. Please check API key configuration.'',
      ''AI service is currently busy. Please try again in a moment.'',
      ''Failed to get AI response. Please try again.'',
      ''AI service returned an unexpected response format.'']"

section \<open>What the other handlers answer\<close>

text \<open>
  Names for the statements about the other handlers: the empty chat that
  \<open>createNewChat\<close> stores and its 201 response, the ids that a history response lists,
  and the second page of ten out of a ranking of 25 chats.
\<close>

definition empty_chat :: "string \<Rightarrow> int \<Rightarrow> string \<Rightarrow> string \<Rightarrow> chat" where
  "empty_chat oid now uid t =
     \<lparr>chat_id = oid, title = t, userId = uid, messages = [], isActive = True,
      lastMessageAt = now, createdAt = now\<rparr>"

definition created_response :: "string \<Rightarrow> int \<Rightarrow> string \<Rightarrow> created_chat response" where
  "created_response oid now t =
     \<lparr>status = 201, success = True, message = ''New chat created successfully'',
      data = Some \<lparr>created_id = oid, created_title = t, created_createdAt = now,
        created_messageCount = 0, created_isActive = True\<rparr>\<rparr>"

definition listed_ids :: "history_data response \<Rightarrow> string list" where
  "listed_ids r = (case data r of None \<Rightarrow> [] | Some h \<Rightarrow> map summary_id (chats h))"

definition history_page2 :: "chat list \<Rightarrow> history_data response" where
  "history_page2 ranked =
     \<lparr>status = 200, success = True, message = ''Chat history retrieved successfully'',
      data = Some \<lparr>chats = map select_summary (take 10 (drop 10 ranked)),
        pagination = \<lparr>currentPage = 2, totalPages = 3, totalChats = 25,
          hasNextPage = True, hasPrevPage = True, page_limit = 10\<rparr>\<rparr>\<rparr>"

section \<open>Tokens in the statements\<close>


definition issued_claims :: "user \<Rightarrow> nat \<Rightarrow> nat \<Rightarrow> jwt_claims" where
  "issued_claims u expiresIn now =
     \<lparr>claims_payload = token_payload_of u, claim_iat = now, claim_exp = now + expiresIn\<rparr>"





section \<open>Example data\<close>

text \<open>
  For the examples of passwords, a salt string and a stand-in for the Blowfish
  computation, which the examples need as a function: 31 characters of the alphabet of
  bcrypt, one for each of the first 31 bytes of the key. The statements about passwords
  hold for every such function.
\<close>

definition example_salt :: string where
  "example_salt = ''$2a$12$abcdefghijklmnopqrstuv''"

definition example_crypt :: "string \<Rightarrow> nat list \<Rightarrow> string" where
  "example_crypt salt key =
     map (\<lambda>b. ''./ABCDEFGHIJKLMNOPQRSTUVWXYZabcdefghijklmnopqrstuvwxyz0123456789'' ! (b mod 64))
       (take 31 key)"

definition ada :: user where
  "ada = \<lparr>user_id = ''64a000000000000000000001'', name = ''Ada'', email = ''ada@x.com'',
          password = bcrypt_hash example_crypt example_salt ''secret1''\<rparr>"

definition send_env0 :: "upstream \<Rightarrow> send_env" where
  "send_env0 up =
     \<lparr>new_chat_id = ''64b000000000000000000001'', new_chat_time = 1000,
      user_msg_id = ''1000-a'', user_msg_time = 1000,
      ai_msg_id = ''1200-b'', ai_msg_time = 1200,
      api_key = Some ''key'', upstream_reply = up\<rparr>"

definition env_down :: send_env where
  "env_down = send_env0 (FetchRejects ''fetch failed'')"

definition env_hi :: send_env where
  "env_hi = send_env0 (HttpResponse 200 ''{}'' (CandidateText ''Hi''))"

definition env_empty :: send_env where
  "env_empty = send_env0 (HttpResponse 200 ''{}'' (CandidateText ''''))"

definition env_next :: send_env where
  "env_next = env_hi\<lparr>user_msg_id := ''2000-c'', user_msg_time := 2000,
                     ai_msg_id := ''2200-d'', ai_msg_time := 2200\<rparr>"

definition long_message :: string where
  "long_message = replicate 5000 CHR ''a'' @ '' ''"

definition hello_user :: chat_message where
  "hello_user = \<lparr>content = ''Hello!'', sender = User, timestamp = 1000, messageId = ''1000-a''\<rparr>"

definition hello_ai :: chat_message where
  "hello_ai = \<lparr>content = ''Hi there'', sender = AI, timestamp = 1000, messageId = ''1000-b''\<rparr>"

definition same_instant_chat :: chat where
  "same_instant_chat =
     \<lparr>chat_id = ''64b000000000000000000001'', title = ''Hello!'',
      userId = ''64a000000000000000000001'', messages = [hello_user, hello_ai],
      isActive = True, lastMessageAt = 1000, createdAt = 1000\<rparr>"

definition padded_title :: string where
  "padded_title = replicate 100 CHR ''a'' @ '' ''"

definition numbered_chat :: "string \<Rightarrow> nat \<Rightarrow> chat" where
  "numbered_chat uid i =
     \<lparr>chat_id = ''chat-'' @ string_of_nat i, title = ''New Chat'', userId = uid,
      messages = [\<lparr>content = ''Hello!'', sender = User, timestamp = int i,
                   messageId = string_of_nat i @ ''-a''\<rparr>],
      isActive = True, lastMessageAt = int i, createdAt = 0\<rparr>"

definition chats25 :: "chat list" where
  "chats25 = map (numbered_chat (user_id ada)) [0..<25]"

text \<open>
  For the examples of tokens: \<open>JWT_SECRET\<close> at its default, seven days in seconds for
  the default \<open>7d\<close> of \<open>JWT_EXPIRES_IN\<close>, and the token that \<open>jwt.sign\<close> issues for
  Ada at the second 1700000000. Its payload segment is the base64url text of
  \<open>{"id":"64a000000000000000000001","email":"ada@x.com","name":"Ada","iat":1700000000,"exp":1700604800}\<close>,
  and its signature is the HMAC-SHA256 of the first two segments under that secret.
  \<open>jws0\<close> is the library at these strings, and at the payload segment with its first
  letter changed to \<open>f\<close>, whose text begins with the byte 127 and is no JSON; at other
  strings it gives no token.
\<close>

definition jwt_secret0 :: string where
  "jwt_secret0 = JWT_SECRET None"

definition ada_claims :: jwt_claims where
  "ada_claims = issued_claims ada 604800 1700000000"

definition ada_payload :: string where
  "ada_payload = ''eyJpZCI6IjY0YTAwMDAwMDAwMDAwMDAwMDAwMDAwMSIsImVtYWlsIjoiYWRhQHguY29tIiwibmFtZSI6IkFkYSIsImlhdCI6MTcwMDAwMDAwMCwiZXhwIjoxNzAwNjA0ODAwfQ''"

definition ada_signature :: string where
  "ada_signature = ''9wcov9AmAji5ImMO35FYlxax55vCSPi7iyAXGp_f2o0''"

definition jws0 :: jws where
  "jws0 =
     \<lparr>encodePayload = (\<lambda>c. if c = ada_claims then ada_payload else ''e30''),
      decode = (\<lambda>h p. if h = jws_header \<and> p = ada_payload then Token ''HS256'' ada_claims
                      else if h = jws_header \<and> p = ada_payload[0 := CHR ''f''] then PayloadThrows
                      else Undecodable),
      hmac = (\<lambda>alg secret input.
                if alg = ''HS256'' \<and> secret = jwt_secret0 \<and> input = jws_header @ ''.'' @ ada_payload
                then ada_signature else ''AAAAAAAAAAAAAAAAAAAAAAAAAAAAAAAAAAAAAAAAAAA'')\<rparr>"

definition ada_token :: string where
  "ada_token = jws_header @ ''.'' @ ada_payload @ ''.'' @ ada_signature"

definition signup_env0 :: signup_env where
  "signup_env0 =
     \<lparr>new_user_id = ''64a000000000000000000001'',
      hash_password = bcrypt_hash example_crypt example_salt,
      sign_token = jwt_sign jws0 jwt_secret0 604800 1700000000\<rparr>"

text \<open>A password of 73 letters, and the same with its last letter changed.\<close>

definition long_password :: string where
  "long_password = replicate 72 CHR ''a'' @ ''b''"

definition altered_password :: string where
  "altered_password = replicate 72 CHR ''a'' @ ''c''"

section \<open>Facts about the string functions\<close>

lemma dropWhile_id: "xs = [] \<or> \<not> P (hd xs) \<Longrightarrow> dropWhile P xs = xs"
  by (cases xs) auto

lemma trim_Nil [simp]: "trim [] = []"
  by (simp add: trim_def)

lemma trim_Nil_iff: "trim s = [] \<longleftrightarrow> list_all isWhiteSpace s"
proof -
  have "dropWhile isWhiteSpace s \<noteq> [] \<Longrightarrow>
        \<exists>x\<in>set (dropWhile isWhiteSpace s). \<not> isWhiteSpace x"
    using hd_dropWhile [of isWhiteSpace s] hd_in_set by blast
  then show ?thesis
    by (auto simp: trim_def dropWhile_eq_Nil_conv list_all_iff dest: set_dropWhileD)
qed

lemma length_trim_le: "length (trim s) \<le> length s"
  unfolding trim_def
  by (metis dual_order.trans length_dropWhile_le length_rev)

lemma hd_trim: "trim s \<noteq> [] \<Longrightarrow> \<not> isWhiteSpace (hd (trim s))"
  by (metis dropWhile_id hd_dropWhile last_appendR last_rev
    rev_is_Nil_conv rev_swap takeWhile_dropWhile_id trim_def)

lemma last_trim: "trim s \<noteq> [] \<Longrightarrow> \<not> isWhiteSpace (last (trim s))"
  unfolding trim_def by (simp add: last_rev hd_dropWhile)

lemma trim_fixed:
  "s = [] \<or> (\<not> isWhiteSpace (hd s) \<and> \<not> isWhiteSpace (last s)) \<Longrightarrow> trim s = s"
proof (cases "s = []")
  case True
  then show ?thesis by simp
next
  case False
  assume "s = [] \<or> (\<not> isWhiteSpace (hd s) \<and> \<not> isWhiteSpace (last s))"
  with False have h: "\<not> isWhiteSpace (hd s)" and l: "\<not> isWhiteSpace (last s)" by auto
  have 1: "dropWhile isWhiteSpace s = s" using h by (simp add: dropWhile_id)
  have "hd (rev s) = last s" using False by (simp add: hd_rev)
  then have 2: "dropWhile isWhiteSpace (rev s) = rev s" using l by (simp add: dropWhile_id)
  show ?thesis by (simp add: trim_def 1 2)
qed

lemma trim_idem: "trim (trim s) = trim s"
  using hd_trim last_trim trim_fixed by blast

lemma trim_replicate: "\<not> isWhiteSpace c \<Longrightarrow> trim (replicate n c @ '' '') = replicate n c"
  by (simp add: trim_def isWhiteSpace_def dropWhile_append dropWhile_replicate)

lemma trim_hello: "trim ''Hello!'' = ''Hello!''"
  by (simp add: trim_def isWhiteSpace_def)

section \<open>Facts about saving and sending\<close>

lemma valid_trimmed: "trim m \<noteq> [] \<Longrightarrow> length m \<le> 5000 \<Longrightarrow> validContent (trim m)"
  using length_trim_le [of m] by (simp add: validContent_def)

lemma created_title_valid:
  assumes ne: "trim m \<noteq> []" and short: "length e50 \<le> 3"
  shows "validTitle (trim (take 50 (trim m) @ e50))"
proof -
  obtain x xs where x: "trim m = x # xs" using ne by (cases "trim m") auto
  have "\<not> isWhiteSpace (hd (trim m))" using ne by (rule hd_trim)
  then have "\<not> isWhiteSpace x" by (simp add: x)
  moreover have "x \<in> set (take 50 (trim m) @ e50)" by (simp add: x)
  ultimately have "\<not> list_all isWhiteSpace (take 50 (trim m) @ e50)"
    unfolding list_all_iff by blast
  then have 1: "trim (take 50 (trim m) @ e50) \<noteq> []" by (simp add: trim_Nil_iff)
  have "length (trim (take 50 (trim m) @ e50)) \<le> length (take 50 (trim m) @ e50)"
    by (rule length_trim_le)
  also have "\<dots> \<le> 53" using short by simp
  finally show ?thesis using 1 by (simp add: validTitle_def)
qed

lemma created_title_valid2:
  assumes ne: "trim m \<noteq> []" and short: "length e50 \<le> 3"
  shows "validTitle (take 50 (trim m) @ e50)"
  using assms by (cases "trim m") (auto simp: validTitle_def)

lemma duplicateKey_messages:
  assumes ne: "messages ch \<noteq> []"
  shows "duplicateKey others ch \<longleftrightarrow>
    (\<exists>m\<in>set (messages ch). messageId m \<in> set (messageIds others))"
proof
  assume "duplicateKey others ch"
  then show "\<exists>m\<in>set (messages ch). messageId m \<in> set (messageIds others)"
    using ne
    by (auto simp: duplicateKey_def index_keys_def messageIds_def list_ex_iff split: if_splits)
next
  assume "\<exists>m\<in>set (messages ch). messageId m \<in> set (messageIds others)"
  then obtain m d x where m: "m \<in> set (messages ch)" and d: "d \<in> set others"
    and x: "x \<in> set (messages d)" "messageId m = messageId x"
    by (auto simp: messageIds_def)
  have "messages d \<noteq> []" using x(1) by auto
  then have "Some (messageId m) \<in> set (index_keys d)"
    using x by (simp add: index_keys_def)
  moreover have "Some (messageId m) \<in> set (index_keys ch)"
    using m ne by (simp add: index_keys_def)
  ultimately show "duplicateKey others ch"
    using d unfolding duplicateKey_def list_ex_iff by blast
qed

lemma duplicateKey_empty:
  "messages ch = [] \<Longrightarrow> duplicateKey others ch \<longleftrightarrow> (\<exists>d\<in>set others. messages d = [])"
proof -
  assume e: "messages ch = []"
  have "None \<in> set (index_keys d) \<longleftrightarrow> messages d = []" for d
    by (auto simp: index_keys_def)
  then show ?thesis
    using e by (simp add: duplicateKey_def list_ex_iff index_keys_def [of ch])
qed

lemma otherChats_fresh:
  "chat_id ch \<notin> chat_id ` set db \<Longrightarrow> otherChats (db @ [ch]) ch = db"
  by (induction db) (auto simp: otherChats_def)

lemma otherChats_updateOne:
  "chat_id x = chat_id ch \<Longrightarrow>
   otherChats (updateOne (\<lambda>d. chat_id d = chat_id ch) (\<lambda>d. x) db) ch = otherChats db ch"
  by (induction db) (auto simp: otherChats_def)

lemma createNew_ok:
  assumes "trim m \<noteq> []" "length m \<le> 5000"
  shows "createNew db (new_chat_id env) (new_chat_time env) uid (trim m) User
           (user_msg_id env) (user_msg_time env)
         = (if user_msg_id env \<in> set (messageIds db) then Inl DuplicateKey
            else Inr (first_chat env uid m, db @ [first_chat env uid m]))"
proof -
  have t: "validTitle (trim (take 50 (trim m) @ (if 50 < length (trim m) then ''...'' else [])))"
    using assms(1) by (intro created_title_valid) auto
  have c: "validContent (trim m)" using assms by (rule valid_trimmed)
  show ?thesis
    using t c assms(1)
    by (simp add: createNew_def saveNew_def validChat_def addMessage_def newChat_def preSave_def
        first_chat_def user_message_def trim_idem Let_def duplicateKey_messages)
qed

lemma saveExisting_push:
  "saveExisting db (addMessage c s mid now ch) =
     (if \<not> (validChat ch \<and> validContent (trim c)) then Inl ValidationError
      else if mid \<in> set (messageIds (otherChats db ch)) \<or>
              (\<exists>m\<in>set (messages ch). messageId m \<in> set (messageIds (otherChats db ch)))
      then Inl DuplicateKey
      else Inr (with_message \<lparr>content = trim c, sender = s, timestamp = now, messageId = mid\<rparr> ch,
                updateOne (\<lambda>d. chat_id d = chat_id ch)
                  (\<lambda>d. with_message \<lparr>content = trim c, sender = s, timestamp = now, messageId = mid\<rparr> ch) db))"
  by (auto simp add: saveExisting_def validChat_def addMessage_def preSave_def with_message_def
      duplicateKey_messages otherChats_def)

lemma updateOne_append_fresh:
  "\<forall>d\<in>set db. \<not> P d \<Longrightarrow> P x \<Longrightarrow> updateOne P f (db @ [x]) = db @ [f x]"
  by (induction db) auto

lemma updateOne_twice:
  "P a \<Longrightarrow> updateOne P (\<lambda>d. b) (updateOne P (\<lambda>d. a) db) = updateOne P (\<lambda>d. b) db"
  by (induction db) auto

lemma findOne_updateOne:
  "Chat_findOne db oid uid = Some ch \<Longrightarrow> chat_id x = oid \<Longrightarrow> userId x = uid \<Longrightarrow>
   Chat_findOne (updateOne (\<lambda>d. chat_id d = oid) (\<lambda>d. x) db) oid uid = Some x"
  by (induction db) (auto simp: Chat_findOne_def split: if_splits)

lemma findOne_props:
  "Chat_findOne db oid uid = Some ch \<Longrightarrow> chat_id ch = oid \<and> userId ch = uid \<and> ch \<in> set db"
  by (auto simp: Chat_findOne_def find_Some_iff)

lemma sendMessage_new:
  assumes v: "trim m \<noteq> []" "length m \<le> 5000"
    and c: "cid = None \<or> cid = Some []"
    and fresh: "new_chat_id env \<notin> chat_id ` set db"
    and unheld: "user_msg_id env \<notin> set (messageIds db)"
  shows "sendMessage env db u (Some m) cid =
     (if validContent (content (ai_message env m)) \<and> ai_msg_id env \<notin> set (messageIds db)
      then (sent_response env m (with_message (ai_message env m) (first_chat env (user_id u) m)),
            db @ [with_message (ai_message env m) (first_chat env (user_id u) m)])
      else (internal_error, db @ [first_chat env (user_id u) m]))"
proof -
  let ?fc = "first_chat env (user_id u) m"
  have t: "sendMessage_target env db (user_id u) m cid = Inr (Inr (?fc, db @ [?fc]))"
    using c unheld by (auto simp: sendMessage_target_def createNew_ok [OF v])
  have i: "chat_id ?fc = new_chat_id env"
    by (simp add: first_chat_def)
  have f: "\<forall>d\<in>set db. \<not> chat_id d = chat_id ?fc"
    using fresh i by (metis imageI)
  have o: "otherChats (db @ [?fc]) ?fc = db"
    using fresh i by (intro otherChats_fresh) simp
  have vt: "validTitle (take 50 (trim m) @ (if 50 < length (trim m) then ''...'' else []))"
    using v(1) by (intro created_title_valid2) auto
  have vf: "validChat ?fc"
    using vt valid_trimmed [OF v] by (simp add: validChat_def first_chat_def user_message_def)
  have ms: "messages ?fc = [user_message env m]" by (simp add: first_chat_def)
  have m0: "trim m = [] \<longleftrightarrow> False" "m = [] \<longleftrightarrow> False" using v(1) by (auto simp: trim_def)
  have s2: "saveExisting (db @ [?fc])
       (addMessage (ai_content (reply_of env m)) AI (ai_msg_id env) (ai_msg_time env) ?fc) =
     (if validContent (content (ai_message env m)) \<and> ai_msg_id env \<notin> set (messageIds db)
      then Inr (with_message (ai_message env m) ?fc, db @ [with_message (ai_message env m) ?fc])
      else if validContent (content (ai_message env m)) then Inl DuplicateKey
      else Inl ValidationError)"
    using unheld
    by (simp add: saveExisting_push o vf ms ai_message_def user_message_def
        updateOne_append_fresh [OF f])
  show ?thesis
    using v(2)
    by (simp add: sendMessage_def t m0 s2 [unfolded reply_of_def] Let_def
        sent_response_def internal_error_def getMessageCount_def reply_of_def)
qed

lemma sendMessage_existing:
  assumes v: "trim m \<noteq> []" "length m \<le> 5000"
    and c: "isValidObjectId c"
    and found: "Chat_findOne db (toLowerCase c) (user_id u) = Some ch"
    and valid: "validChat ch"
    and unheld: "user_msg_id env \<notin> set (messageIds (otherChats db ch))"
      "\<forall>x\<in>set (messages ch). messageId x \<notin> set (messageIds (otherChats db ch))"
  shows "sendMessage env db u (Some m) (Some c) =
     (if validContent (content (ai_message env m)) \<and>
         ai_msg_id env \<notin> set (messageIds (otherChats db ch))
      then (sent_response env m (with_message (ai_message env m) (with_message (user_message env m) ch)),
            updateOne (\<lambda>d. chat_id d = chat_id ch)
              (\<lambda>d. with_message (ai_message env m) (with_message (user_message env m) ch)) db)
      else (internal_error,
            updateOne (\<lambda>d. chat_id d = chat_id ch) (\<lambda>d. with_message (user_message env m) ch) db))"
proof -
  let ?c1 = "with_message (user_message env m) ch"
  let ?db1 = "updateOne (\<lambda>d. chat_id d = chat_id ch) (\<lambda>d. ?c1) db"
  have ne: "c \<noteq> []" using c by (auto simp: isValidObjectId_def)
  have vc: "validContent (trim (trim m))" using v by (simp add: trim_idem valid_trimmed)
  have t: "sendMessage_target env db (user_id u) m (Some c) = Inr (Inr (?c1, ?db1))"
    using c ne found vc valid unheld
    by (simp add: sendMessage_target_def castObjectId_def saveExisting_push user_message_def trim_idem)
  have m0: "trim m = [] \<longleftrightarrow> False" "m = [] \<longleftrightarrow> False" using v(1) by (auto simp: trim_def)
  have i: "chat_id ?c1 = chat_id ch"
    by (simp add: with_message_def)
  have o: "otherChats ?db1 ?c1 = otherChats db ch"
    using otherChats_updateOne [of ?c1 ch db] i by (simp add: otherChats_def)
  have v1: "validChat ?c1"
    using valid vc by (simp add: validChat_def with_message_def user_message_def trim_idem)
  have ms: "messages ?c1 = messages ch @ [user_message env m]" by (simp add: with_message_def)
  have mi: "messageId (user_message env m) = user_msg_id env" by (simp add: user_message_def)
  have s2: "saveExisting ?db1
       (addMessage (ai_content (reply_of env m)) AI (ai_msg_id env) (ai_msg_time env) ?c1) =
     (if validContent (content (ai_message env m)) \<and>
         ai_msg_id env \<notin> set (messageIds (otherChats db ch))
      then Inr (with_message (ai_message env m) ?c1,
            updateOne (\<lambda>d. chat_id d = chat_id ch) (\<lambda>d. with_message (ai_message env m) ?c1) db)
      else if validContent (content (ai_message env m)) then Inl DuplicateKey
      else Inl ValidationError)"
    using unheld
    by (simp add: saveExisting_push o v1 ms i mi ai_message_def updateOne_twice)
  show ?thesis
    using v(2)
    by (simp add: sendMessage_def t m0 s2 [unfolded reply_of_def] Let_def
        sent_response_def internal_error_def getMessageCount_def reply_of_def)
qed

lemma fallbacks_ok: "list_all (\<lambda>s. trim s = s \<and> validContent s) fallbacks"
  by (simp add: fallbacks_def trim_def isWhiteSpace_def validContent_def)

lemma failure_in_fallbacks:
  "ai_content (generateAIResponse k up m) \<in> set fallbacks \<and>
     ai_error (generateAIResponse k up m) \<noteq> None
   \<or> ai_success (generateAIResponse k up m)"
  by (simp add: generateAIResponse_def ai_failure_def fallbacks_def
      split: option.split upstream.split gemini_body.split)

lemma fallback_content:
  assumes "\<not> ai_success (generateAIResponse k up m)"
  shows "ai_content (generateAIResponse k up m) \<in> set fallbacks \<and>
   trim (ai_content (generateAIResponse k up m)) = ai_content (generateAIResponse k up m) \<and>
   validContent (ai_content (generateAIResponse k up m)) \<and>
   ai_error (generateAIResponse k up m) \<noteq> None"
  using assms failure_in_fallbacks [of k up m] fallbacks_ok
  by (auto simp: list_all_iff)

section \<open>Sending to a malformed chat id\<close>

text \<open>
  Every send with an accepted message and a \<open>chatId\<close> that is not empty and not an
  ObjectId ends in the 500 response and changes nothing.
\<close>

lemma sendMessage_malformed_always:
  "trim m \<noteq> [] \<Longrightarrow> length m \<le> 5000 \<Longrightarrow> c \<noteq> [] \<Longrightarrow> \<not> isValidObjectId c \<Longrightarrow>
   sendMessage env db reqUser (Some m) (Some c) =
   (failure 500 ''Internal server error while sending message'', db)"
  by (auto simp add: sendMessage_def sendMessage_target_def
      resolve_identifier_def sendMessage_scope_def trim_def)

text \<open>
  C1. A send whose \<open>chatId\<close> is not an ObjectId (here \<open>12345\<close>) takes the branch that
  evaluates \<open>user._id\<close>. The identifier is not declared, the ReferenceError reaches the
  \<open>catch\<close>, and the request fails with the 500 response; no chat is created and
  nothing is appended. This holds for every state of the collection and every user.
\<close>

theorem sendMessage_malformed_chatId:
  "sendMessage env db reqUser (Some ''Hello!'') (Some ''12345'') =
     (failure 500 ''Internal server error while sending message'', db)"
  by (simp add: sendMessage_def sendMessage_target_def isValidObjectId_def
      resolve_identifier_def sendMessage_scope_def trim_hello)

section \<open>One turn per send\<close>

lemma reply_down: "reply_of env_down ''Hello!'' =
    ai_failure ''AI service is temporarily unavailable. Please try again later.'' ''fetch failed''"
  by (simp add: env_down_def reply_of_def generateAIResponse_def validateGeminiConfig_def
      send_env0_def trim_hello)

lemma find_same_instant:
  "Chat_findOne [same_instant_chat] (toLowerCase ''64B000000000000000000001'') (user_id ada)
     = Some same_instant_chat"
  by (simp add: Chat_findOne_def same_instant_chat_def ada_def toLowerCase_def toLowerChar_def
      isUpperCase_def)

lemma reply_empty: "reply_of env_empty ''Hello!''
   = \<lparr>ai_success = True, ai_content = '''', ai_error = None\<rparr>"
  by (simp add: env_empty_def reply_of_def generateAIResponse_def validateGeminiConfig_def
      send_env0_def trim_hello)

text \<open>
  What holds of the claim. Take a send with valid content that reaches a chat: no
  \<open>chatId\<close> (a chat is created under a fresh id), or the id of a chat of the requesting
  user whose stored document is valid; the ids of the two new messages, and those of the
  chat, are held by no other chat. Whenever the AI service fails, or succeeds with a
  reply that the message schema accepts, the stored log of that chat grows by exactly the
  user's message followed by one AI message, and the response is the 200 success
  response. When the service fails, the AI message holds one of its fixed fallback
  texts, unchanged, \<open>aiServiceStatus\<close> is \<open>error\<close> and \<open>aiError\<close> is the reason it gave.
\<close>

lemma sendMessage_appends_turn:
  assumes v: "trim m \<noteq> []" "length m \<le> 5000"
    and r: "ai_success (reply_of env m) \<Longrightarrow> validContent (trim (ai_content (reply_of env m)))"
  shows
   "(body_chatId = None \<or> body_chatId = Some [] \<longrightarrow> new_chat_id env \<notin> chat_id ` set db \<longrightarrow>
     user_msg_id env \<notin> set (messageIds db) \<longrightarrow> ai_msg_id env \<notin> set (messageIds db) \<longrightarrow>
       (\<exists>ch. sendMessage env db u (Some m) body_chatId = (sent_response env m ch, db @ [ch]) \<and>
             messages ch = [user_message env m, ai_message env m]))
    \<and> (\<forall>c old. body_chatId = Some c \<longrightarrow> isValidObjectId c \<longrightarrow>
          Chat_findOne db (toLowerCase c) (user_id u) = Some old \<longrightarrow> validChat old \<longrightarrow>
          (\<forall>i \<in> set (map messageId (messages old)) \<union> {user_msg_id env, ai_msg_id env}.
              i \<notin> set (messageIds (otherChats db old))) \<longrightarrow>
       (\<exists>ch db'. sendMessage env db u (Some m) body_chatId = (sent_response env m ch, db') \<and>
             Chat_findOne db' (toLowerCase c) (user_id u) = Some ch \<and>
             messages ch = messages old @ [user_message env m, ai_message env m]))
    \<and> sender (user_message env m) = User \<and> sender (ai_message env m) = AI
    \<and> status (sent_response env m ch0) = 200 \<and> success (sent_response env m ch0)
    \<and> (\<not> ai_success (reply_of env m) \<longrightarrow>
         content (ai_message env m) = ai_content (reply_of env m) \<and>
         ai_content (reply_of env m) \<in> set fallbacks \<and>
         map_option aiServiceStatus (data (sent_response env m ch0)) = Some ''error'' \<and>
         map_option aiError (data (sent_response env m ch0)) = Some (ai_error (reply_of env m)) \<and>
         ai_error (reply_of env m) \<noteq> None)"
proof -
  have fb: "\<not> ai_success (reply_of env m) \<Longrightarrow>
      ai_content (reply_of env m) \<in> set fallbacks \<and>
      trim (ai_content (reply_of env m)) = ai_content (reply_of env m) \<and>
      validContent (ai_content (reply_of env m)) \<and> ai_error (reply_of env m) \<noteq> None"
    unfolding reply_of_def by (rule fallback_content)
  have vc: "validContent (content (ai_message env m))"
    using r fb by (cases "ai_success (reply_of env m)") (auto simp: ai_message_def)
  have new: "body_chatId = None \<or> body_chatId = Some [] \<Longrightarrow> new_chat_id env \<notin> chat_id ` set db \<Longrightarrow>
     user_msg_id env \<notin> set (messageIds db) \<Longrightarrow> ai_msg_id env \<notin> set (messageIds db) \<Longrightarrow>
       (\<exists>ch. sendMessage env db u (Some m) body_chatId = (sent_response env m ch, db @ [ch]) \<and>
             messages ch = [user_message env m, ai_message env m])"
    using sendMessage_new [OF v, of body_chatId env db u] vc
    by (simp add: with_message_def first_chat_def)
  have old: "\<And>c old. body_chatId = Some c \<Longrightarrow> isValidObjectId c \<Longrightarrow>
          Chat_findOne db (toLowerCase c) (user_id u) = Some old \<Longrightarrow> validChat old \<Longrightarrow>
          (\<forall>i \<in> set (map messageId (messages old)) \<union> {user_msg_id env, ai_msg_id env}.
              i \<notin> set (messageIds (otherChats db old))) \<Longrightarrow>
       (\<exists>ch db'. sendMessage env db u (Some m) body_chatId = (sent_response env m ch, db') \<and>
             Chat_findOne db' (toLowerCase c) (user_id u) = Some ch \<and>
             messages ch = messages old @ [user_message env m, ai_message env m])"
  proof -
    fix c old
    assume c: "body_chatId = Some c" "isValidObjectId c"
      and f: "Chat_findOne db (toLowerCase c) (user_id u) = Some old"
      and vo: "validChat old"
      and un: "\<forall>i \<in> set (map messageId (messages old)) \<union> {user_msg_id env, ai_msg_id env}.
              i \<notin> set (messageIds (otherChats db old))"
    let ?ch = "with_message (ai_message env m) (with_message (user_message env m) old)"
    have p: "chat_id old = toLowerCase c" "userId old = user_id u"
      using findOne_props [OF f] by auto
    have u1: "user_msg_id env \<notin> set (messageIds (otherChats db old))"
      and u2: "\<forall>x\<in>set (messages old). messageId x \<notin> set (messageIds (otherChats db old))"
      and u3: "ai_msg_id env \<notin> set (messageIds (otherChats db old))"
      using un by auto
    have 1: "sendMessage env db u (Some m) body_chatId =
       (sent_response env m ?ch, updateOne (\<lambda>d. chat_id d = toLowerCase c) (\<lambda>d. ?ch) db)"
      using sendMessage_existing [OF v c(2) f vo u1 u2] vc c(1) p u3 by simp
    have 2: "Chat_findOne (updateOne (\<lambda>d. chat_id d = toLowerCase c) (\<lambda>d. ?ch) db)
        (toLowerCase c) (user_id u) = Some ?ch"
      using f p by (intro findOne_updateOne) (auto simp: with_message_def)
    have 3: "messages ?ch = messages old @ [user_message env m, ai_message env m]"
      by (simp add: with_message_def)
    show "\<exists>ch db'. sendMessage env db u (Some m) body_chatId = (sent_response env m ch, db') \<and>
             Chat_findOne db' (toLowerCase c) (user_id u) = Some ch \<and>
             messages ch = messages old @ [user_message env m, ai_message env m]"
      using 1 2 3 by blast
  qed
  have misc: "sender (user_message env m) = User \<and> sender (ai_message env m) = AI
    \<and> status (sent_response env m ch0) = 200 \<and> success (sent_response env m ch0)"
    by (simp add: user_message_def ai_message_def sent_response_def)
  have fail: "\<not> ai_success (reply_of env m) \<Longrightarrow>
         content (ai_message env m) = ai_content (reply_of env m) \<and>
         ai_content (reply_of env m) \<in> set fallbacks \<and>
         map_option aiServiceStatus (data (sent_response env m ch0)) = Some ''error'' \<and>
         map_option aiError (data (sent_response env m ch0)) = Some (ai_error (reply_of env m)) \<and>
         ai_error (reply_of env m) \<noteq> None"
    using fb by (simp add: ai_message_def sent_response_def)
  show ?thesis using new old misc fail by blast
qed

text \<open>
  A first message while the service cannot be reached: the chat that is created holds
  the message and the fallback text of the service.
\<close>

lemma sendMessage_gateway_down:
  "\<exists>ch. sendMessage env_down [] ada (Some ''Hello!'') None = (sent_response env_down ''Hello!'' ch, [ch]) \<and>
      map content (messages ch) =
        [''Hello!'', ''AI service is temporarily unavailable. Please try again later.'']"
proof -
  have h1: "trim ''Hello!'' \<noteq> []" by (simp add: trim_hello)
  have h2: "length ''Hello!'' \<le> 5000" by simp
  have d: "\<not> ai_success (reply_of env_down ''Hello!'')" by (simp add: reply_down ai_failure_def)
  have h3: "ai_success (reply_of env_down ''Hello!'') \<Longrightarrow>
      validContent (trim (ai_content (reply_of env_down ''Hello!'')))" using d by simp
  have a: "\<exists>ch. sendMessage env_down [] ada (Some ''Hello!'') None = (sent_response env_down ''Hello!'' ch, [ch]) \<and>
      messages ch = [user_message env_down ''Hello!'', ai_message env_down ''Hello!'']"
    using sendMessage_appends_turn [OF h1 h2 h3, where body_chatId = None and db = "[]" and u = ada]
    by (simp add: messageIds_def)
  have c: "map content [user_message env_down ''Hello!'', ai_message env_down ''Hello!''] =
      [''Hello!'', ''AI service is temporarily unavailable. Please try again later.'']"
    by (simp add: user_message_def ai_message_def trim_hello reply_down ai_failure_def trim_def
        isWhiteSpace_def)
  show ?thesis using a c by metis
qed

text \<open>
  C2. A first message \<open>Hello!\<close>, sent without \<open>chatId\<close> to an empty collection, while the
  AI service answers 200 with a first candidate whose text is the empty string. The
  service reports success, the handler pushes the reply as it does in both of its
  branches, the reply fails the \<open>required\<close> validator of the message schema, \<open>save\<close>
  throws, and the request ends with the 500 response. The user's message was saved
  before: the chat holds one message and no reply.
\<close>

theorem sendMessage_empty_reply:
  "sendMessage env_empty [] ada (Some ''Hello!'') None =
     (failure 500 ''Internal server error while sending message'',
      [\<lparr>chat_id = ''64b000000000000000000001'', title = ''Hello!'',
        userId = ''64a000000000000000000001'',
        messages = [\<lparr>content = ''Hello!'', sender = User, timestamp = 1000, messageId = ''1000-a''\<rparr>],
        isActive = True, lastMessageAt = 1000, createdAt = 1000\<rparr>])"
proof -
  have "sendMessage env_empty [] ada (Some ''Hello!'') None
     = (internal_error, [] @ [first_chat env_empty (user_id ada) ''Hello!''])"
    by (subst sendMessage_new)
       (simp_all add: trim_hello ai_message_def reply_empty validContent_def messageIds_def)
  then show ?thesis
    by (simp add: internal_error_def first_chat_def user_message_def trim_hello env_empty_def
        send_env0_def ada_def)
qed

section \<open>Recent messages\<close>

text \<open>
  Where the timestamps grow strictly along the log, the sort is the reverse of the log
  and \<open>getRecentMessages\<close> returns its last \<open>limit\<close> entries in append order.
\<close>

lemma insertSorted_last:
  "\<forall>y\<in>set ys. 0 < cmp x y \<Longrightarrow> insertSorted cmp x ys = ys @ [x]"
  by (induction ys) auto

lemma array_sort_increasing:
  "sorted_wrt (\<lambda>a b. timestamp a < timestamp b) ms \<Longrightarrow>
   array_sort (\<lambda>a b. timestamp b - timestamp a) ms = rev ms"
proof (induction ms)
  case Nil
  then show ?case by (simp add: array_sort_def)
next
  case (Cons m ms)
  then have "array_sort (\<lambda>a b. timestamp b - timestamp a) ms = rev ms" by simp
  moreover have "\<forall>y\<in>set (rev ms). 0 < timestamp y - timestamp m" using Cons.prems by auto
  ultimately show ?case
    using insertSorted_last [of "rev ms" "\<lambda>a b. timestamp b - timestamp a" m]
    by (simp add: array_sort_def)
qed

lemma getRecentMessages_increasing:
  assumes "sorted_wrt (\<lambda>a b. timestamp a < timestamp b) (messages ch)" and "0 \<le> limit"
  shows "getRecentMessages limit ch = drop (length (messages ch) - nat limit) (messages ch)"
  using assms by (simp add: getRecentMessages_def array_sort_increasing slice0_def rev_take)

text \<open>
  With three messages of the same instant and a limit of two, the two that were appended
  first are the ones returned, the later of them first.
\<close>

lemma getRecentMessages_tied_limit:
  "getRecentMessages 2
     (same_instant_chat\<lparr>messages := [hello_user, hello_ai,
        \<lparr>content = ''Again'', sender = User, timestamp = 1000, messageId = ''1000-c''\<rparr>]\<rparr>) =
     [hello_ai, hello_user]"
  by (simp add: same_instant_chat_def getRecentMessages_def array_sort_def slice0_def
      hello_user_def hello_ai_def)

text \<open>
  C4. The log holds the user's message and then the reply, appended in that order within
  the same millisecond. The stable sort leaves the two in append order, and the final
  reverse then returns the reply before the message it answers: the append order is not
  preserved.
\<close>

theorem getRecentMessages_same_instant:
  "messages same_instant_chat = [hello_user, hello_ai] \<and>
   getRecentMessages 20 same_instant_chat = [hello_ai, hello_user]"
  by (simp add: same_instant_chat_def getRecentMessages_def array_sort_def slice0_def
      hello_user_def hello_ai_def)

section \<open>Which messages are rejected\<close>

lemma target_404:
  "sendMessage_target env db uid m cid = Inr (Inl resp) \<Longrightarrow> status resp = 404"
  by (auto simp: sendMessage_target_def failure_def split: option.splits sum.splits if_splits)

lemma accepted_not_400:
  assumes "trim m \<noteq> []" "length m \<le> 5000"
  shows "status (fst (sendMessage env db u (Some m) cid)) \<noteq> 400"
proof -
  have m0: "trim m = [] \<longleftrightarrow> False" "m = [] \<longleftrightarrow> False" using assms(1) by (auto simp: trim_def)
  show ?thesis
    using assms(2)
    by (auto simp: sendMessage_def m0 Let_def failure_def split: sum.splits prod.splits
        dest: target_404)
qed

lemma rejected_400:
  "trim m = [] \<or> 5000 < length m \<Longrightarrow>
   status (fst (sendMessage env db u (Some m) cid)) = 400 \<and> snd (sendMessage env db u (Some m) cid) = db"
  by (auto simp: sendMessage_def failure_def)

lemma length_long_message: "length long_message = 5001"
  by (simp add: long_message_def)

lemma trim_long_message: "trim long_message = replicate 5000 CHR ''a''"
  unfolding long_message_def by (rule trim_replicate) (simp add: isWhiteSpace_def)

text \<open>
  Against C6 as it is stated: 5000 letters followed by one space. Trimmed, the content
  has 5000 characters and is within the bounds of the schema, yet the handler rejects
  the request, because it compares the length before trimming.
\<close>

theorem sendMessage_rejects_padded:
  "validContent (trim long_message) \<and>
   sendMessage env_down [] ada (Some long_message) None =
     (failure 400 ''Message cannot exceed 5000 characters'', [])"
proof -
  have "validContent (trim long_message)"
    by (simp add: trim_long_message validContent_def)
  moreover have "trim long_message \<noteq> []"
    by (simp add: trim_long_message)
  moreover have "long_message \<noteq> []"
    by (simp add: long_message_def)
  ultimately show ?thesis
    by (simp add: sendMessage_def length_long_message)
qed

text \<open>
  C6, amended. A send is rejected with the 400 validation response exactly when the
  message is absent, is empty after trimming, or is longer than 5000 characters before
  trimming; a rejected send changes nothing. A message that is not rejected and reaches
  a chat is stored as the next entry of its log with the trimmed text as content, whole.
  The chat is a new one, under an id and with a message id that the collection does not
  hold; or it is a chat of the requesting user whose stored document is valid, where no
  other chat holds the id of one of its messages or of the new one.
\<close>

theorem sendMessage_validation:
  "(status (fst (sendMessage env db u body_message body_chatId)) = 400 \<longleftrightarrow>
      (case body_message of None \<Rightarrow> True | Some m \<Rightarrow> trim m = [] \<or> 5000 < length m))
   \<and> (status (fst (sendMessage env db u body_message body_chatId)) = 400 \<longrightarrow>
        snd (sendMessage env db u body_message body_chatId) = db)
   \<and> (\<forall>m. body_message = Some m \<longrightarrow> trim m \<noteq> [] \<longrightarrow> length m \<le> 5000 \<longrightarrow>
        content (user_message env m) = trim m \<and>
        (body_chatId = None \<or> body_chatId = Some [] \<longrightarrow> new_chat_id env \<notin> chat_id ` set db \<longrightarrow>
         user_msg_id env \<notin> set (messageIds db) \<longrightarrow>
           (\<exists>ch. snd (sendMessage env db u body_message body_chatId) = db @ [ch] \<and>
                 hd (messages ch) = user_message env m)) \<and>
        (\<forall>c old. body_chatId = Some c \<longrightarrow> isValidObjectId c \<longrightarrow>
             Chat_findOne db (toLowerCase c) (user_id u) = Some old \<longrightarrow> validChat old \<longrightarrow>
             (\<forall>i \<in> set (map messageId (messages old)) \<union> {user_msg_id env}.
                 i \<notin> set (messageIds (otherChats db old))) \<longrightarrow>
           (\<exists>ch. Chat_findOne (snd (sendMessage env db u body_message body_chatId))
                    (toLowerCase c) (user_id u) = Some ch \<and>
                 take (Suc (length (messages old))) (messages ch) =
                   messages old @ [user_message env m])))"
proof -
  let ?R = "sendMessage env db u body_message body_chatId"
  have iff: "status (fst ?R) = 400 \<longleftrightarrow>
      (case body_message of None \<Rightarrow> True | Some m \<Rightarrow> trim m = [] \<or> 5000 < length m)"
  proof (cases body_message)
    case None
    then show ?thesis by (simp add: sendMessage_def failure_def)
  next
    case (Some m)
    show ?thesis
    proof (cases "trim m = [] \<or> 5000 < length m")
      case True
      then show ?thesis using Some rejected_400 [of m env db u body_chatId] by simp
    next
      case False
      then show ?thesis using Some accepted_not_400 [of m env db u body_chatId] by simp
    qed
  qed
  have unchanged: "status (fst ?R) = 400 \<Longrightarrow> snd ?R = db"
  proof (cases body_message)
    case None
    then show ?thesis by (simp add: sendMessage_def)
  next
    case (Some m)
    assume "status (fst ?R) = 400"
    then have "trim m = [] \<or> 5000 < length m" using iff Some by simp
    then show ?thesis using Some rejected_400 [of m env db u body_chatId] by simp
  qed
  have stored: "content (user_message env m) = trim m \<and>
        (body_chatId = None \<or> body_chatId = Some [] \<longrightarrow> new_chat_id env \<notin> chat_id ` set db \<longrightarrow>
         user_msg_id env \<notin> set (messageIds db) \<longrightarrow>
           (\<exists>ch. snd ?R = db @ [ch] \<and> hd (messages ch) = user_message env m)) \<and>
        (\<forall>c old. body_chatId = Some c \<longrightarrow> isValidObjectId c \<longrightarrow>
             Chat_findOne db (toLowerCase c) (user_id u) = Some old \<longrightarrow> validChat old \<longrightarrow>
             (\<forall>i \<in> set (map messageId (messages old)) \<union> {user_msg_id env}.
                 i \<notin> set (messageIds (otherChats db old))) \<longrightarrow>
           (\<exists>ch. Chat_findOne (snd ?R) (toLowerCase c) (user_id u) = Some ch \<and>
                 take (Suc (length (messages old))) (messages ch) =
                   messages old @ [user_message env m]))"
    if b: "body_message = Some m" and v: "trim m \<noteq> []" "length m \<le> 5000" for m
  proof (intro conjI allI impI)
    show "content (user_message env m) = trim m" by (simp add: user_message_def)
  next
    assume c: "body_chatId = None \<or> body_chatId = Some []"
      and fr: "new_chat_id env \<notin> chat_id ` set db" "user_msg_id env \<notin> set (messageIds db)"
    let ?fc = "first_chat env (user_id u) m"
    have "snd ?R = db @ [with_message (ai_message env m) ?fc] \<or> snd ?R = db @ [?fc]"
      using sendMessage_new [OF v c fr, of u] b by (simp split: if_splits)
    moreover have "hd (messages (with_message (ai_message env m) ?fc)) = user_message env m"
      "hd (messages ?fc) = user_message env m"
      by (simp_all add: with_message_def first_chat_def)
    ultimately show "\<exists>ch. snd ?R = db @ [ch] \<and> hd (messages ch) = user_message env m"
      by metis
  next
    fix c old
    assume c: "body_chatId = Some c" "isValidObjectId c"
      and f: "Chat_findOne db (toLowerCase c) (user_id u) = Some old"
      and vo: "validChat old"
      and un: "\<forall>i \<in> set (map messageId (messages old)) \<union> {user_msg_id env}.
                 i \<notin> set (messageIds (otherChats db old))"
    have p: "chat_id old = toLowerCase c" "userId old = user_id u"
      using findOne_props [OF f] by auto
    have u1: "user_msg_id env \<notin> set (messageIds (otherChats db old))"
      and u2: "\<forall>x\<in>set (messages old). messageId x \<notin> set (messageIds (otherChats db old))"
      using un by auto
    let ?c1 = "with_message (user_message env m) old"
    let ?c2 = "with_message (ai_message env m) ?c1"
    have "snd ?R = updateOne (\<lambda>d. chat_id d = toLowerCase c) (\<lambda>d. ?c2) db \<or>
          snd ?R = updateOne (\<lambda>d. chat_id d = toLowerCase c) (\<lambda>d. ?c1) db"
      using sendMessage_existing [OF v c(2) f vo u1 u2] b c(1) p by (simp split: if_splits)
    moreover have "Chat_findOne (updateOne (\<lambda>d. chat_id d = toLowerCase c) (\<lambda>d. ?c2) db)
        (toLowerCase c) (user_id u) = Some ?c2"
      using f p by (intro findOne_updateOne) (auto simp: with_message_def)
    moreover have "Chat_findOne (updateOne (\<lambda>d. chat_id d = toLowerCase c) (\<lambda>d. ?c1) db)
        (toLowerCase c) (user_id u) = Some ?c1"
      using f p by (intro findOne_updateOne) (auto simp: with_message_def)
    moreover have "take (Suc (length (messages old))) (messages ?c2) = messages old @ [user_message env m]"
      "take (Suc (length (messages old))) (messages ?c1) = messages old @ [user_message env m]"
      by (simp_all add: with_message_def)
    ultimately show "\<exists>ch. Chat_findOne (snd ?R) (toLowerCase c) (user_id u) = Some ch \<and>
        take (Suc (length (messages old))) (messages ch) = messages old @ [user_message env m]"
      by metis
  qed
  show ?thesis using iff unchanged stored by blast
qed

text \<open>
  The theorem at a short message sent without \<open>chatId\<close>, which is stored in a new chat;
  at the same message sent to a stored chat, named with an upper-case digit in its id;
  and at the padded message, which is rejected.
\<close>

theorem sendMessage_validation_witness:
  "status (fst (sendMessage env_down [] ada (Some ''Hello!'') None)) \<noteq> 400 \<and>
   (\<exists>ch. snd (sendMessage env_down [] ada (Some ''Hello!'') None) = [ch] \<and>
         content (hd (messages ch)) = ''Hello!'') \<and>
   validChat same_instant_chat \<and>
   (\<exists>ch. Chat_findOne (snd (sendMessage env_next [same_instant_chat] ada (Some ''Hello!'')
              (Some ''64B000000000000000000001''))) ''64b000000000000000000001'' (user_id ada) = Some ch \<and>
         map content (take 3 (messages ch)) = [''Hello!'', ''Hi there'', ''Hello!'']) \<and>
   status (fst (sendMessage env_down [] ada (Some long_message) None)) = 400 \<and>
   snd (sendMessage env_down [] ada (Some long_message) None) = []"
proof -
  have a: "status (fst (sendMessage env_down [] ada (Some ''Hello!'') None)) \<noteq> 400 \<and>
   (\<exists>ch. snd (sendMessage env_down [] ada (Some ''Hello!'') None) = [] @ [ch] \<and>
         hd (messages ch) = user_message env_down ''Hello!'') \<and>
         content (user_message env_down ''Hello!'') = trim ''Hello!''"
    using sendMessage_validation [of env_down "[]" ada "Some ''Hello!''" None]
    by (simp add: trim_hello messageIds_def)
  have b: "status (fst (sendMessage env_down [] ada (Some long_message) None)) = 400 \<and>
   snd (sendMessage env_down [] ada (Some long_message) None) = []"
    using sendMessage_validation [of env_down "[]" ada "Some long_message" None]
    by (simp add: length_long_message)
  have lc: "toLowerCase ''64B000000000000000000001'' = ''64b000000000000000000001''"
    by (simp add: toLowerCase_def toLowerChar_def isUpperCase_def)
  have vs: "validChat same_instant_chat"
    by (simp add: validChat_def same_instant_chat_def validTitle_def validContent_def
        hello_user_def hello_ai_def)
  have o: "otherChats [same_instant_chat] same_instant_chat = []"
    by (simp add: otherChats_def)
  have c: "\<exists>ch. Chat_findOne (snd (sendMessage env_next [same_instant_chat] ada (Some ''Hello!'')
              (Some ''64B000000000000000000001''))) (toLowerCase ''64B000000000000000000001'')
              (user_id ada) = Some ch \<and>
         take (Suc (length (messages same_instant_chat))) (messages ch) =
           messages same_instant_chat @ [user_message env_next ''Hello!'']"
    using sendMessage_validation [of env_next "[same_instant_chat]" ada "Some ''Hello!''"
        "Some ''64B000000000000000000001''"] find_same_instant vs
    by (simp add: trim_hello isValidObjectId_def isHexDigit_def o messageIds_def)
  have d: "map content (messages same_instant_chat @ [user_message env_next ''Hello!'']) =
      [''Hello!'', ''Hi there'', ''Hello!'']"
    by (simp add: same_instant_chat_def hello_user_def hello_ai_def user_message_def trim_hello)
  have l: "Suc (length (messages same_instant_chat)) = 3"
    by (simp add: same_instant_chat_def)
  from c obtain ch where ch: "Chat_findOne (snd (sendMessage env_next [same_instant_chat] ada
      (Some ''Hello!'') (Some ''64B000000000000000000001''))) ''64b000000000000000000001''
      (user_id ada) = Some ch"
    "take 3 (messages ch) = messages same_instant_chat @ [user_message env_next ''Hello!'']"
    unfolding lc l by blast
  have e: "map content (take 3 (messages ch)) = [''Hello!'', ''Hi there'', ''Hello!'']"
    using ch(2) d by simp
  show ?thesis using a b vs ch(1) e by (auto simp: trim_hello)
qed

section \<open>Creating an empty chat\<close>

lemma createNewChat_result:
  "createNewChat oid now db u body_title =
     (let t = trim (case body_title of None \<Rightarrow> ''New Chat'' | Some t \<Rightarrow> if t = [] then ''New Chat'' else t)
      in if validTitle t \<and> (\<forall>d\<in>set db. messages d \<noteq> [])
         then (created_response oid now t, db @ [empty_chat oid now (user_id u) t])
         else (failure 500 ''Internal server error while creating new chat'', db))"
  by (simp add: createNewChat_def saveNew_def validChat_def newChat_def preSave_def Let_def
      created_response_def empty_chat_def duplicateKey_empty)

lemma trim_new_chat: "trim ''New Chat'' = ''New Chat''"
  by (simp add: trim_def isWhiteSpace_def)

lemma trim_padded_title: "trim padded_title = replicate 100 CHR ''a''"
  unfolding padded_title_def by (rule trim_replicate) (simp add: isWhiteSpace_def)

text \<open>
  The unique index at work: once a chat without messages is stored, which is what
  \<open>createNewChat\<close> leaves behind, the next request finds the null key of the index
  taken, whatever its title, and ends with the 500 response.
\<close>

lemma createNewChat_second_empty:
  "createNewChat ''64b000000000000000000003'' 3000
     [empty_chat ''64b000000000000000000002'' 2000 (user_id ada) ''New Chat''] ada None =
   (failure 500 ''Internal server error while creating new chat'',
    [empty_chat ''64b000000000000000000002'' 2000 (user_id ada) ''New Chat''])"
  by (simp add: createNewChat_result Let_def empty_chat_def)

text \<open>
  Against C10 as it is stated: a title of 100 letters and a trailing space has 101
  characters, but the schema trims it before it checks the length, so the save succeeds
  and the handler answers 201 with the trimmed title.
\<close>

theorem createNewChat_padded_title:
  "100 < length padded_title \<and>
   createNewChat ''64b000000000000000000002'' 2000 [] ada (Some padded_title) =
     (created_response ''64b000000000000000000002'' 2000 (replicate 100 CHR ''a''),
      [empty_chat ''64b000000000000000000002'' 2000 (user_id ada) (replicate 100 CHR ''a'')]) \<and>
   status (created_response ''64b000000000000000000002'' 2000 (replicate 100 CHR ''a'')) = 201"
proof -
  have 1: "100 < length padded_title" by (simp add: padded_title_def)
  have 2: "padded_title \<noteq> []" by (simp add: padded_title_def)
  have 3: "validTitle (replicate 100 CHR ''a'')" by (simp add: validTitle_def)
  show ?thesis using 1 2 3
    by (simp add: createNewChat_result trim_padded_title created_response_def Let_def)
qed

text \<open>
  C10, amended. \<open>createNewChat\<close> validates nothing itself and never answers 400. For
  every request whose title is longer than 100 characters after trimming, the schema
  rejects the save and the handler answers with the 500 internal error, storing nothing.
  A request with no title, made while every stored chat has at least one message,
  succeeds with status 201, the default title \<open>New Chat\<close> and a message count of 0, and
  stores a chat with no messages.
\<close>

theorem createNewChat_unvalidated:
  "(\<forall>t. body_title = Some t \<longrightarrow> 100 < length (trim t) \<longrightarrow>
      createNewChat oid now db u body_title =
        (failure 500 ''Internal server error while creating new chat'', db))
   \<and> (body_title = None \<longrightarrow> (\<forall>d\<in>set db. messages d \<noteq> []) \<longrightarrow>
      createNewChat oid now db u body_title =
        (created_response oid now ''New Chat'', db @ [empty_chat oid now (user_id u) ''New Chat'']))
   \<and> status (fst (createNewChat oid now db u body_title)) \<noteq> 400
   \<and> status (created_response oid now ''New Chat'') = 201
   \<and> map_option created_messageCount (data (created_response oid now ''New Chat'')) = Some 0
   \<and> map_option created_title (data (created_response oid now ''New Chat'')) = Some ''New Chat''
   \<and> messages (empty_chat oid now (user_id u) ''New Chat'') = []"
proof -
  have a: "createNewChat oid now db u body_title =
        (failure 500 ''Internal server error while creating new chat'', db)"
    if "body_title = Some t" "100 < length (trim t)" for t
  proof -
    have "t \<noteq> []" using that(2) by auto
    then show ?thesis using that by (simp add: createNewChat_result validTitle_def Let_def)
  qed
  have b: "body_title = None \<Longrightarrow> (\<forall>d\<in>set db. messages d \<noteq> []) \<Longrightarrow>
      createNewChat oid now db u body_title =
        (created_response oid now ''New Chat'', db @ [empty_chat oid now (user_id u) ''New Chat''])"
    by (simp add: createNewChat_result trim_new_chat validTitle_def Let_def)
  have c: "status (fst (createNewChat oid now db u body_title)) \<noteq> 400"
    by (simp add: createNewChat_result Let_def created_response_def failure_def)
  show ?thesis using a b c by (simp add: created_response_def empty_chat_def)
qed

text \<open>
  The theorem at a title of 101 letters, and at a request without a title made while the
  collection holds one chat, which has two messages.
\<close>

theorem createNewChat_unvalidated_witness:
  "100 < length (trim (replicate 101 CHR ''a'')) \<and>
   createNewChat ''64b000000000000000000002'' 2000 [] ada (Some (replicate 101 CHR ''a'')) =
     (failure 500 ''Internal server error while creating new chat'', []) \<and>
   messages same_instant_chat \<noteq> [] \<and>
   createNewChat ''64b000000000000000000002'' 2000 [same_instant_chat] ada None =
     (created_response ''64b000000000000000000002'' 2000 ''New Chat'',
      [same_instant_chat, empty_chat ''64b000000000000000000002'' 2000 (user_id ada) ''New Chat''])"
proof -
  have t: "trim (replicate 101 CHR ''a'') = replicate 101 CHR ''a''"
    by (rule trim_fixed) (simp add: isWhiteSpace_def)
  have h: "100 < length (trim (replicate 101 CHR ''a''))" by (simp add: t)
  have m: "messages same_instant_chat \<noteq> []"
    by (simp add: same_instant_chat_def)
  show ?thesis
    using h m createNewChat_unvalidated [of "Some (replicate 101 CHR ''a'')"
        "''64b000000000000000000002''" 2000 "[]" ada]
      createNewChat_unvalidated [of None "''64b000000000000000000002''" 2000 "[same_instant_chat]" ada]
    by simp
qed

section \<open>After a soft delete\<close>

lemma page_subset:
  "Chat_find_page db uid skip limit = Inr found \<Longrightarrow> set found \<subseteq> set (ownedActive uid db)"
  by (auto simp: Chat_find_page_def byLastMessageDesc_def split: if_splits
      dest!: in_set_takeD in_set_dropD)

lemma history_chats_owned_active:
  assumes "data (getChatHistory db u ql qp) = Some h" and "x \<in> set (chats h)"
  shows "\<exists>c\<in>set db. x = select_summary c \<and> userId c = user_id u \<and> isActive c"
proof -
  obtain found where f: "Chat_find_page db (user_id u) ((orDefault qp 1 - 1) * orDefault ql 20)
        (orDefault ql 20) = Inr found" and c: "chats h = map select_summary found"
    using assms(1)
    by (auto simp: getChatHistory_def Let_def failure_def split: if_splits sum.splits)
  then obtain c where "c \<in> set found" "x = select_summary c" using assms(2) by auto
  moreover have "set found \<subseteq> set (ownedActive (user_id u) db)" using f by (rule page_subset)
  ultimately show ?thesis by (auto simp: ownedActive_def)
qed

lemma find_updateOne:
  "find P db = Some ch \<Longrightarrow> P (f ch) \<Longrightarrow> find P (updateOne P f db) = Some (f ch)"
  by (induction db) (auto split: if_splits)

lemma updated_only_match:
  assumes "distinct (map chat_id db)"
    and "find (\<lambda>c. chat_id c = oid \<and> userId c = uid) db = Some ch"
    and "c \<in> set (updateOne (\<lambda>c. chat_id c = oid \<and> userId c = uid) f db)"
    and "chat_id c = oid"
  shows "c = f ch"
  using assms
proof (induction db)
  case Nil
  then show ?case by simp
next
  case (Cons x xs)
  show ?case
  proof (cases "chat_id x = oid \<and> userId x = uid")
    case True
    then have "ch = x" using Cons.prems(2) by simp
    moreover have "c \<notin> set xs" using Cons.prems(1,4) True by auto
    ultimately show ?thesis using Cons.prems(3) True by simp
  next
    case False
    then have f: "find (\<lambda>c. chat_id c = oid \<and> userId c = uid) xs = Some ch"
      using Cons.prems(2) by auto
    then have "ch \<in> set xs" "chat_id ch = oid" by (auto simp: find_Some_iff)
    then have "chat_id x \<noteq> oid" using Cons.prems(1) by auto
    then have "c \<noteq> x" using Cons.prems(4) by auto
    then have "c \<in> set (updateOne (\<lambda>c. chat_id c = oid \<and> userId c = uid) f xs)"
      using Cons.prems(3) False by simp
    then show ?thesis using Cons.IH Cons.prems(1,4) f by simp
  qed
qed

lemma deleteChat_ok:
  assumes "deleteChat db u cid = (r, db')" and "status r = 200"
  shows "isValidObjectId cid \<and>
    (\<exists>ch. Chat_findOne db (toLowerCase cid) (user_id u) = Some ch \<and>
      db' = updateOne (\<lambda>c. chat_id c = toLowerCase cid \<and> userId c = user_id u) (\<lambda>c. c\<lparr>isActive := False\<rparr>) db)"
  using assms
  by (auto simp: deleteChat_def castObjectId_def failure_def
      split: if_splits option.splits)

lemma lower_id: "toLowerCase ''64b000000000000000000001'' = ''64b000000000000000000001''"
  by (simp add: toLowerCase_def toLowerChar_def isUpperCase_def)

lemma valid_id: "isValidObjectId ''64b000000000000000000001''"
  by (simp add: isValidObjectId_def isHexDigit_def)

lemma delete_same_instant:
  "deleteChat [same_instant_chat] ada ''64b000000000000000000001'' =
    (\<lparr>status = 200, success = True, message = ''Chat deleted successfully'',
      data = Some ''64b000000000000000000001''\<rparr>,
     [same_instant_chat\<lparr>isActive := False\<rparr>])"
  by (simp add: deleteChat_def castObjectId_def valid_id lower_id Chat_findOne_def
      same_instant_chat_def ada_def)

text \<open>
  Against C3 as it is stated: the owner deletes her chat and then fetches it by id.
  \<open>getChat\<close> looks the chat up by id and owner only, so the answer is the 200 response
  with the chat, not the 404 response.
\<close>

theorem deleteChat_still_fetchable:
  "status (fst (deleteChat [same_instant_chat] ada ''64b000000000000000000001'')) = 200 \<and>
   status (getChat (snd (deleteChat [same_instant_chat] ada ''64b000000000000000000001''))
      ada ''64b000000000000000000001'' None) = 200 \<and>
   getChat (snd (deleteChat [same_instant_chat] ada ''64b000000000000000000001''))
      ada ''64b000000000000000000001'' None \<noteq> failure 404 ''Chat not found or access denied''"
  unfolding delete_same_instant
  by (simp add: getChat_def castObjectId_def valid_id lower_id Chat_findOne_def
      same_instant_chat_def ada_def failure_def)

text \<open>
  C3, amended. In a collection whose ids are distinct, after \<open>deleteChat\<close> has answered
  200 to the owner of a chat, no page of the owner's history lists the chat, whatever the
  limit and the page; a later \<open>getChat\<close> by the same owner for the same id still
  answers 200 and returns the chat, now with \<open>isActive\<close> false.
\<close>

theorem deleteChat_then_getChat:
  assumes d: "distinct (map chat_id db)"
    and del: "deleteChat db u cid = (r, db')" and ok: "status r = 200"
  shows "toLowerCase cid \<notin> set (listed_ids (getChatHistory db' u ql qp)) \<and>
    status (getChat db' u cid ql') = 200 \<and>
    map_option (info_id \<circ> data_chat) (data (getChat db' u cid ql')) = Some (toLowerCase cid) \<and>
    map_option (info_isActive \<circ> data_chat) (data (getChat db' u cid ql')) = Some False"
proof -
  let ?P = "\<lambda>c. chat_id c = toLowerCase cid \<and> userId c = user_id u"
  obtain ch where v: "isValidObjectId cid"
    and f: "Chat_findOne db (toLowerCase cid) (user_id u) = Some ch"
    and db': "db' = updateOne ?P (\<lambda>c. c\<lparr>isActive := False\<rparr>) db"
    using deleteChat_ok [OF del ok] by auto
  have f': "find ?P db = Some ch" using f by (simp add: Chat_findOne_def)
  have p: "chat_id ch = toLowerCase cid" "userId ch = user_id u"
    using findOne_props [OF f] by auto
  have listed: "toLowerCase cid \<notin> set (listed_ids (getChatHistory db' u ql qp))"
  proof
    assume "toLowerCase cid \<in> set (listed_ids (getChatHistory db' u ql qp))"
    then obtain h x where h: "data (getChatHistory db' u ql qp) = Some h"
      and x: "x \<in> set (chats h)" "summary_id x = toLowerCase cid"
      by (cases "data (getChatHistory db' u ql qp)") (auto simp: listed_ids_def)
    then obtain c where c: "c \<in> set db'" "x = select_summary c" "userId c = user_id u" "isActive c"
      using history_chats_owned_active by blast
    then have "chat_id c = toLowerCase cid" using x(2) by (simp add: select_summary_def)
    then have "c = ch\<lparr>isActive := False\<rparr>" using updated_only_match [OF d f'] c(1) db' by blast
    then show False using c(4) by simp
  qed
  have "find ?P db' = Some (ch\<lparr>isActive := False\<rparr>)"
    unfolding db' using f' p by (intro find_updateOne) auto
  then have g: "Chat_findOne db' (toLowerCase cid) (user_id u) = Some (ch\<lparr>isActive := False\<rparr>)"
    by (simp add: Chat_findOne_def)
  have "status (getChat db' u cid ql') = 200 \<and>
    map_option (info_id \<circ> data_chat) (data (getChat db' u cid ql')) = Some (toLowerCase cid) \<and>
    map_option (info_isActive \<circ> data_chat) (data (getChat db' u cid ql')) = Some False"
    using v g p by (simp add: getChat_def castObjectId_def)
  then show ?thesis using listed by simp
qed

text \<open>The theorem at a collection of one chat, deleted by its owner.\<close>

theorem deleteChat_then_getChat_witness:
  "distinct (map chat_id [same_instant_chat]) \<and>
   status (fst (deleteChat [same_instant_chat] ada ''64b000000000000000000001'')) = 200 \<and>
   ''64b000000000000000000001'' \<notin> set (listed_ids (getChatHistory
       (snd (deleteChat [same_instant_chat] ada ''64b000000000000000000001'')) ada None None)) \<and>
   map_option (info_isActive \<circ> data_chat)
     (data (getChat (snd (deleteChat [same_instant_chat] ada ''64b000000000000000000001''))
        ada ''64b000000000000000000001'' None)) = Some False"
proof -
  have d: "distinct (map chat_id [same_instant_chat])" by simp
  have s: "status (fst (deleteChat [same_instant_chat] ada ''64b000000000000000000001'')) = 200"
    by (simp add: delete_same_instant)
  show ?thesis
    using d s deleteChat_then_getChat [OF d _ s,
        where u = ada and cid = "''64b000000000000000000001''" and ql = None and qp = None
          and ql' = None]
    by (simp add: lower_id)
qed

section \<open>Pages of the history\<close>

lemma ranked_sorted:
  "sorted_wrt (\<lambda>a b. lastMessageAt b \<le> lastMessageAt a) (byLastMessageDesc cs)"
proof -
  have "sorted (map (\<lambda>c. - lastMessageAt c) (byLastMessageDesc cs))"
    unfolding byLastMessageDesc_def by (rule sorted_sort_key)
  then show ?thesis by (simp add: sorted_map)
qed

lemma ranked_perm: "mset (byLastMessageDesc cs) = mset cs"
  by (simp add: byLastMessageDesc_def)

lemma page2:
  assumes "length (ownedActive (user_id u) db) = 25"
  shows "getChatHistory db u (Some 10) (Some 2) =
     history_page2 (byLastMessageDesc (ownedActive (user_id u) db))"
proof -
  show ?thesis
    using assms
    by (simp add: getChatHistory_def orDefault_def Chat_find_page_def ceil_div_def
        history_page2_def Let_def)
qed

text \<open>
  C7. For an owner with 25 active chats, page 2 with a limit of 10 answers 200 with the
  chats at ranks 11 to 20 of the owner's active chats ordered by \<open>lastMessageAt\<close>,
  newest first, and with \<open>totalPages = 3\<close>, \<open>totalChats = 25\<close>, \<open>hasNextPage\<close> and
  \<open>hasPrevPage\<close> true. The ranking is sorted and is a permutation of the owner's active
  chats. For every request, each chat of the answer is the projection of a stored chat
  of that owner with \<open>isActive\<close> true, and a requested limit above 100 is rejected with
  the 400 response.
\<close>

theorem getChatHistory_pages:
  "(length (ownedActive (user_id u) db) = 25 \<longrightarrow>
      getChatHistory db u (Some 10) (Some 2) =
        history_page2 (byLastMessageDesc (ownedActive (user_id u) db)))
   \<and> sorted_wrt (\<lambda>a b. lastMessageAt b \<le> lastMessageAt a) (byLastMessageDesc (ownedActive (user_id u) db))
   \<and> mset (byLastMessageDesc (ownedActive (user_id u) db)) = mset (ownedActive (user_id u) db)
   \<and> ownedActive (user_id u) db = filter (\<lambda>c. userId c = user_id u \<and> isActive c) db
   \<and> (\<forall>h x. data (getChatHistory db u ql qp) = Some h \<longrightarrow> x \<in> set (chats h) \<longrightarrow>
         (\<exists>c\<in>set db. x = select_summary c \<and> userId c = user_id u \<and> isActive c))
   \<and> (\<forall>n. 100 < n \<longrightarrow> getChatHistory db u (Some n) qp = failure 400 ''Limit cannot exceed 100'')"
proof -
  have big: "\<And>n. 100 < n \<Longrightarrow> getChatHistory db u (Some n) qp = failure 400 ''Limit cannot exceed 100''"
    by (simp add: getChatHistory_def orDefault_def Let_def)
  show ?thesis
    using page2 ranked_sorted ranked_perm history_chats_owned_active big
    by (simp add: ownedActive_def)
qed

lemma owned25: "ownedActive (user_id ada) chats25 = chats25"
  by (simp add: ownedActive_def chats25_def numbered_chat_def filter_map comp_def)

lemma ranked25: "map lastMessageAt (take 10 (drop 10 (byLastMessageDesc chats25))) =
    [14, 13, 12, 11, 10, 9, 8, 7, 6, 5]"
  by (simp add: byLastMessageDesc_def chats25_def numbered_chat_def upt_rec)

text \<open>
  The theorem at 25 chats of one owner whose last activity is at 0, 1, ..., 24: the
  second page holds those of 14 down to 5. A limit of 101 is rejected.
\<close>

theorem getChatHistory_pages_witness:
  "length (ownedActive (user_id ada) chats25) = 25 \<and>
   getChatHistory chats25 ada (Some 10) (Some 2) = history_page2 (byLastMessageDesc chats25) \<and>
   map lastMessageAt (take 10 (drop 10 (byLastMessageDesc chats25))) =
     [14, 13, 12, 11, 10, 9, 8, 7, 6, 5] \<and>
   getChatHistory chats25 ada (Some 101) (Some 1) = failure 400 ''Limit cannot exceed 100''"
proof -
  have l: "length (ownedActive (user_id ada) chats25) = 25"
    by (simp add: owned25) (simp add: chats25_def)
  show ?thesis
    using l getChatHistory_pages [of ada chats25 None None] ranked25
      getChatHistory_pages [of ada chats25 None "Some 1"]
    by (simp add: owned25)
qed

section \<open>The token middleware\<close>













lemma issued_token:
  "generateToken (jwt_sign lib secret expiresIn t0) u =
     jws_header @ CHR ''.'' # encodePayload lib (issued_claims u expiresIn t0) @ CHR ''.'' #
       hmac lib ''HS256'' secret
         (jws_header @ CHR ''.'' # encodePayload lib (issued_claims u expiresIn t0))"
  by (simp add: generateToken_def jwt_sign_def issued_claims_def Let_def)












lemma token_ada:
  "generateToken (jwt_sign jws0 jwt_secret0 604800 1700000000) (ada\<lparr>password := h\<rparr>) = ada_token"
proof -
  have c: "issued_claims (ada\<lparr>password := h\<rparr>) 604800 1700000000 = ada_claims"
    by (simp add: ada_claims_def issued_claims_def token_payload_of_def)
  show ?thesis
    unfolding issued_token c by (simp add: jws0_def ada_token_def)
qed








section \<open>Registering an address twice\<close>

lemma lower_at: "toLowerChar c = CHR ''@'' \<longleftrightarrow> c = CHR ''@''"
  by (cases c) (auto simp: toLowerChar_def isUpperCase_def)

lemma lower_dot: "toLowerChar c = CHR ''.'' \<longleftrightarrow> c = CHR ''.''"
  by (cases c) (auto simp: toLowerChar_def isUpperCase_def)

lemma lower_space: "isWhiteSpace (toLowerChar c) = isWhiteSpace c"
  by (cases c) (auto simp: toLowerChar_def isUpperCase_def isWhiteSpace_def)

lemma lower_idem: "toLowerChar (toLowerChar c) = toLowerChar c"
  by (cases c) (auto simp: toLowerChar_def isUpperCase_def)

lemma toLowerCase_idem: "toLowerCase (toLowerCase s) = toLowerCase s"
  by (simp add: toLowerCase_def lower_idem)

lemma lower_mem_at: "CHR ''@'' \<in> toLowerChar ` A \<longleftrightarrow> CHR ''@'' \<in> A"
  using lower_at by (metis (no_types, lifting) image_iff)

lemma lower_mem_dot: "CHR ''.'' \<in> toLowerChar ` A \<longleftrightarrow> CHR ''.'' \<in> A"
  using lower_dot by (metis (no_types, lifting) image_iff)

lemma emailRegex_lower: "emailRegex (toLowerCase s) = emailRegex s"
proof -
  have tw: "takeWhile (\<lambda>c. c \<noteq> CHR ''@'') (map toLowerChar s) =
      map toLowerChar (takeWhile (\<lambda>c. c \<noteq> CHR ''@'') s)"
    by (simp add: takeWhile_map comp_def lower_at)
  show ?thesis
    unfolding emailRegex_def toLowerCase_def tw Let_def
    by (simp add: drop_map list_all_iff lower_space lower_mem_at lower_mem_dot
        map_butlast [symmetric] map_tl [symmetric])
qed

lemma trim_no_space: "list_all (\<lambda>c. \<not> isWhiteSpace c) s \<Longrightarrow> trim s = s"
  by (rule trim_fixed) (cases s, auto simp: list_all_iff)

lemma emailRegex_no_space: "emailRegex s \<Longrightarrow> list_all (\<lambda>c. \<not> isWhiteSpace c) s"
  by (simp add: emailRegex_def Let_def)

lemma trim_lower_email:
  assumes "emailRegex e"
  shows "trim (toLowerCase e) = toLowerCase e"
proof -
  have "list_all (\<lambda>c. \<not> isWhiteSpace c) (toLowerCase e)"
    using assms emailRegex_lower [of e] emailRegex_no_space by blast
  then show ?thesis by (rule trim_no_space)
qed

lemma stored_email:
  "emailRegex e \<Longrightarrow> trim (toLowerCase (trim (toLowerCase e))) = toLowerCase e"
  by (simp add: trim_lower_email toLowerCase_idem)

lemma signup_created:
  assumes "signup env users bn be bp = (r, users1)" and "status r = 201"
  shows "\<exists>n e p u. bn = Some n \<and> be = Some e \<and> bp = Some p \<and> emailRegex e \<and>
     User_findByEmail users e = None \<and>
     u = \<lparr>user_id = new_user_id env, name = trim n, email = toLowerCase e,
          password = hash_password env p\<rparr> \<and>
     users1 = users @ [u] \<and>
     data r = Some \<lparr>data_user = getPublicProfile u, data_token = generateToken (sign_token env) u\<rparr>"
proof -
  obtain n e p where s: "bn = Some n" "be = Some e" "bp = Some p"
    using assms by (cases bn; cases be; cases bp) (auto simp: signup_def failure_def)
  have re: "emailRegex e"
    using assms s by (auto simp: signup_def failure_def split: if_splits)
  show ?thesis
    using assms s re
    by (auto simp: signup_def failure_def saveUser_def stored_email trim_idem
        split: if_splits option.splits sum.splits js_error.splits)
qed

lemma signup_existing_email:
  assumes "n \<noteq> []" "emailRegex e" "6 \<le> length p"
    and "toLowerCase e \<in> email ` set users"
  shows "signup env users (Some n) (Some e) (Some p) =
    (failure 409 ''User with this email already exists'', users)"
proof -
  have "e \<noteq> []" using assms(2) by (auto simp: emailRegex_def)
  moreover have "p \<noteq> []" using assms(3) by auto
  moreover obtain u where "User_findByEmail users e = Some u"
    using assms(4) unfolding User_findByEmail_def
    by (cases "find (\<lambda>u. email u = toLowerCase e) users") (auto simp: find_None_iff)
  ultimately show ?thesis using assms(1,2,3) by (simp add: signup_def)
qed

lemma signup_taken_email:
  assumes re: "emailRegex e" and taken: "toLowerCase e \<in> email ` set users"
  shows "snd (signup env users bn (Some e) bp) = users \<and>
    (status (fst (signup env users bn (Some e) bp)) = 400 \<or>
     status (fst (signup env users bn (Some e) bp)) = 409)"
proof (cases "\<exists>n p. bn = Some n \<and> bp = Some p \<and> n \<noteq> [] \<and> 6 \<le> length p")
  case True
  then obtain n p where "bn = Some n" "bp = Some p" "n \<noteq> []" "6 \<le> length p" by blast
  then show ?thesis
    using signup_existing_email [OF _ re _ taken, of n p env] by (simp add: failure_def)
next
  case False
  then show ?thesis
    by (cases bn; cases bp) (auto simp: signup_def failure_def re)
qed

lemma signup_unchecked:
  assumes "bn = None \<or> bn = Some [] \<or> bp = None \<or> (\<exists>p. bp = Some p \<and> length p < 6)"
  shows "status (fst (signup env users bn be bp)) = 400"
  using assms
  by (cases bn; cases be; cases bp) (auto simp: signup_def failure_def)

lemma lower_ada: "toLowerCase ''Ada@X.com'' = ''ada@x.com''"
  "toLowerCase ''ADA@x.COM'' = ''ada@x.com''" "toLowerCase ''ada@x.com'' = ''ada@x.com''"
  by (simp_all add: toLowerCase_def toLowerChar_def isUpperCase_def)

lemma regex_ada: "emailRegex ''Ada@X.com''" "emailRegex ''ADA@x.COM''" "emailRegex ''ada@x.com''"
  by (simp_all add: emailRegex_def isWhiteSpace_def)

lemma signup_ada_with:
  assumes "6 \<le> length p"
  shows "signup signup_env0 [] (Some ''Ada'') (Some ''Ada@X.com'') (Some p) =
    (\<lparr>status = 201, success = True, message = ''User registered successfully'',
      data = Some \<lparr>data_user = \<lparr>profile_id = ''64a000000000000000000001'',
          profile_name = ''Ada'', profile_email = ''ada@x.com''\<rparr>,
        data_token = ada_token\<rparr>\<rparr>,
     [ada\<lparr>password := bcrypt_hash example_crypt example_salt p\<rparr>])"
proof -
  have t: "trim ''Ada'' = ''Ada''" by (simp add: trim_def isWhiteSpace_def)
  have t': "trim ''ada@x.com'' = ''ada@x.com''" by (simp add: trim_def isWhiteSpace_def)
  have ne: "p \<noteq> []" using assms by auto
  have u: "\<lparr>user_id = ''64a000000000000000000001'', name = ''Ada'', email = ''ada@x.com'',
       password = bcrypt_hash example_crypt example_salt p\<rparr> =
     ada\<lparr>password := bcrypt_hash example_crypt example_salt p\<rparr>"
    by (simp add: ada_def)
  have s: "sign_token signup_env0 = jwt_sign jws0 jwt_secret0 604800 1700000000"
    "hash_password signup_env0 = bcrypt_hash example_crypt example_salt"
    "new_user_id signup_env0 = ''64a000000000000000000001''"
    by (simp_all add: signup_env0_def)
  show ?thesis
    using assms ne regex_ada
    by (simp add: signup_def lower_ada t t' User_findByEmail_def saveUser_def s u token_ada)
       (simp add: getPublicProfile_def ada_def)
qed

lemma signup_ada:
  "signup signup_env0 [] (Some ''Ada'') (Some ''Ada@X.com'') (Some ''secret1'') =
    (\<lparr>status = 201, success = True, message = ''User registered successfully'',
      data = Some \<lparr>data_user = \<lparr>profile_id = ''64a000000000000000000001'',
          profile_name = ''Ada'', profile_email = ''ada@x.com''\<rparr>,
        data_token = ada_token\<rparr>\<rparr>,
     [ada])"
proof -
  have "ada\<lparr>password := bcrypt_hash example_crypt example_salt ''secret1''\<rparr> = ada"
    by (simp add: ada_def)
  then show ?thesis using signup_ada_with [of "''secret1''"] by simp
qed

text \<open>
  Against C9 as it is stated: after the registration of \<open>Ada@X.com\<close>, a second
  registration of \<open>ADA@x.COM\<close> with a password of three characters, and one without a
  name, are refused by the checks that the handler makes before it looks the address up.
  They fail with the 400 validation response, not with the 409 response.
\<close>

theorem signup_duplicate_invalid:
  "signup signup_env0 [] (Some ''Ada'') (Some ''Ada@X.com'') (Some ''secret1'') =
    (\<lparr>status = 201, success = True, message = ''User registered successfully'',
      data = Some \<lparr>data_user = \<lparr>profile_id = ''64a000000000000000000001'',
          profile_name = ''Ada'', profile_email = ''ada@x.com''\<rparr>,
        data_token = ada_token\<rparr>\<rparr>,
     [ada]) \<and>
   toLowerCase ''ADA@x.COM'' = toLowerCase ''Ada@X.com'' \<and>
   signup signup_env0 [ada] (Some ''Eve'') (Some ''ADA@x.COM'') (Some ''abc'') =
     (failure 400 ''Password must be at least 6 characters long'', [ada]) \<and>
   signup signup_env0 [ada] None (Some ''ADA@x.COM'') (Some ''secret2'') =
     (failure 400 ''Please provide name, email, and password'', [ada])"
  using regex_ada by (simp add: signup_ada lower_ada) (simp add: signup_def)

text \<open>
  C9, amended. Take a registration that succeeded (status 201) with the address \<open>e1\<close>,
  and a second registration request whose address \<open>e2\<close> equals \<open>e1\<close> up to letter case.
  Whatever else the second request holds, it fails and leaves the store of users as it
  was. When it passes the handler's checks of the other fields (a name, and a password
  of at least 6 characters) it fails with the 409 response \<open>User with this email already
  exists\<close>; when it does not, it fails with a 400 response. The first registration
  stored exactly one new user, whose address is \<open>e1\<close> in lower case; lower-casing or
  trimming the stored address changes nothing.
\<close>

theorem signup_duplicate_email:
  assumes first: "signup env1 users n1 (Some e1) p1 = (r1, users1)" and ok: "status r1 = 201"
    and same: "toLowerCase e2 = toLowerCase e1"
  shows "(\<forall>n2 p2. n2 \<noteq> [] \<longrightarrow> 6 \<le> length p2 \<longrightarrow>
        signup env2 users1 (Some n2) (Some e2) (Some p2) =
          (failure 409 ''User with this email already exists'', users1)) \<and>
    (body_name = None \<or> body_name = Some [] \<or> body_password = None \<or>
       (\<exists>p. body_password = Some p \<and> length p < 6) \<longrightarrow>
        status (fst (signup env2 users1 body_name (Some e2) body_password)) = 400) \<and>
    snd (signup env2 users1 body_name (Some e2) body_password) = users1 \<and>
    status (fst (signup env2 users1 body_name (Some e2) body_password)) \<in> {400, 409} \<and>
    (\<exists>u. users1 = users @ [u] \<and> email u = toLowerCase e1 \<and>
         toLowerCase (email u) = email u \<and> trim (email u) = email u)"
proof -
  obtain u where re: "emailRegex e1"
    and u1: "users1 = users @ [u]" and eu: "email u = toLowerCase e1"
    using signup_created [OF first ok] by auto
  have re2: "emailRegex e2" using re same emailRegex_lower by metis
  have taken: "toLowerCase e2 \<in> email ` set users1" by (simp add: u1 same eu)
  have dup: "signup env2 users1 (Some n2) (Some e2) (Some p2) =
      (failure 409 ''User with this email already exists'', users1)"
    if "n2 \<noteq> []" "6 \<le> length p2" for n2 p2
    using that re2 taken by (intro signup_existing_email)
  have inv: "body_name = None \<or> body_name = Some [] \<or> body_password = None \<or>
       (\<exists>p. body_password = Some p \<and> length p < 6) \<Longrightarrow>
        status (fst (signup env2 users1 body_name (Some e2) body_password)) = 400"
    by (rule signup_unchecked)
  have any: "snd (signup env2 users1 body_name (Some e2) body_password) = users1 \<and>
    status (fst (signup env2 users1 body_name (Some e2) body_password)) \<in> {400, 409}"
    using signup_taken_email [OF re2 taken, of env2 body_name body_password] by auto
  have "trim (toLowerCase e1) = toLowerCase e1"
    using re by (rule trim_lower_email)
  then have st: "\<exists>u. users1 = users @ [u] \<and> email u = toLowerCase e1 \<and>
         toLowerCase (email u) = email u \<and> trim (email u) = email u"
    using u1 eu by (simp add: toLowerCase_idem)
  show ?thesis using dup inv any st by blast
qed

text \<open>
  The theorem at the registration of \<open>Ada@X.com\<close> followed by one of \<open>ADA@x.COM\<close>,
  and by one without a name and with a short password.
\<close>

theorem signup_duplicate_email_witness:
  "status (fst (signup signup_env0 [] (Some ''Ada'') (Some ''Ada@X.com'') (Some ''secret1''))) = 201 \<and>
   toLowerCase ''ADA@x.COM'' = toLowerCase ''Ada@X.com'' \<and>
   signup signup_env0 [ada] (Some ''Eve'') (Some ''ADA@x.COM'') (Some ''secret2'') =
     (failure 409 ''User with this email already exists'', [ada]) \<and>
   status (fst (signup signup_env0 [ada] None (Some ''ADA@x.COM'') (Some ''abc''))) = 400 \<and>
   snd (signup signup_env0 [ada] None (Some ''ADA@x.COM'') (Some ''abc'')) = [ada] \<and>
   map email [ada] = [''ada@x.com'']"
proof -
  have s: "status (fst (signup signup_env0 [] (Some ''Ada'') (Some ''Ada@X.com'') (Some ''secret1''))) = 201"
    by (simp add: signup_ada)
  have l: "toLowerCase ''ADA@x.COM'' = toLowerCase ''Ada@X.com''"
    by (simp add: lower_ada)
  have f: "signup signup_env0 [] (Some ''Ada'') (Some ''Ada@X.com'') (Some ''secret1'') =
     (fst (signup signup_env0 [] (Some ''Ada'') (Some ''Ada@X.com'') (Some ''secret1'')), [ada])"
    by (simp add: signup_ada)
  have n: "''Eve'' \<noteq> []" and p: "6 \<le> length ''secret2''" by simp_all
  note T = signup_duplicate_email [OF f s l, of signup_env0 None "Some ''abc''"]
  have d: "signup signup_env0 [ada] (Some ''Eve'') (Some ''ADA@x.COM'') (Some ''secret2'') =
     (failure 409 ''User with this email already exists'', [ada])"
    using T n p by blast
  have u: "snd (signup signup_env0 [ada] None (Some ''ADA@x.COM'') (Some ''abc'')) = [ada]"
    using T by blast
  have i: "status (fst (signup signup_env0 [ada] None (Some ''ADA@x.COM'') (Some ''abc''))) = 400"
    using T by blast
  have m: "map email [ada] = [''ada@x.com'']" by (simp add: ada_def)
  show ?thesis using s l d u i m by blast
qed

section \<open>Passwords\<close>

lemma length_concat_replicate: "length (concat (replicate n xs)) = n * length xs"
  by (induction n) auto

lemma length_bcrypt_key: "length (bcrypt_key s) = 72"
  by (simp add: bcrypt_key_def length_concat_replicate)

lemma take_concat_replicate:
  "n \<le> length xs \<Longrightarrow> take n (concat (replicate (Suc k) xs)) = take n xs"
  by simp

lemma bcrypt_key_long: "72 \<le> length (utf8 s) \<Longrightarrow> bcrypt_key s = take 72 (utf8 s)"
proof -
  assume l: "72 \<le> length (utf8 s)"
  have "bcrypt_key s = take 72 (concat (replicate (Suc 71) (utf8 s @ [0])))"
    by (simp add: bcrypt_key_def)
  also have "\<dots> = take 72 (utf8 s @ [0])"
    using l by (intro take_concat_replicate) simp
  also have "\<dots> = take 72 (utf8 s)" using l by simp
  finally show ?thesis .
qed

lemma take_bcrypt_key:
  assumes "n \<le> Suc (length (utf8 s))" "n \<le> 72"
  shows "take n (bcrypt_key s) = take n (utf8 s @ [0])"
proof -
  have "take n (bcrypt_key s) = take n (concat (replicate (Suc 71) (utf8 s @ [0])))"
    using assms(2) by (simp add: bcrypt_key_def)
  also have "\<dots> = take n (utf8 s @ [0])"
    using assms(1) by (intro take_concat_replicate) simp
  finally show ?thesis .
qed

lemma utf8_append: "utf8 (a @ b) = utf8 a @ utf8 b"
  by (simp add: utf8_def)

lemma utf8_replicate_a: "utf8 (replicate n CHR ''a'') = replicate n 97"
  by (induction n) (simp_all add: utf8_def)

lemma bcrypt_key_long_password: "bcrypt_key long_password = replicate 72 97"
  by (subst bcrypt_key_long)
     (simp_all add: long_password_def utf8_append utf8_replicate_a)

lemma bcrypt_key_altered_password: "bcrypt_key altered_password = replicate 72 97"
  by (subst bcrypt_key_long)
     (simp_all add: altered_password_def utf8_append utf8_replicate_a)

text \<open>
  \<open>compare\<close> on a hash that \<open>hash\<close> wrote: the candidate is accepted exactly when the
  Blowfish computation gives for its key what it gave for the key of the password.
\<close>

lemma bcrypt_compare_hash:
  assumes "length salt = 29" "length (crypt salt (bcrypt_key s)) = 31"
  shows "bcrypt_compare crypt s' (bcrypt_hash crypt salt s) \<longleftrightarrow>
    crypt salt (bcrypt_key s') = crypt salt (bcrypt_key s)"
  using assms by (simp add: bcrypt_compare_def bcrypt_hash_def)

lemma findByEmail_new:
  "User_findByEmail users e = None \<Longrightarrow> email u = toLowerCase e \<Longrightarrow>
   User_findByEmail (users @ [u]) e = Some u"
  by (induction users) (auto simp: User_findByEmail_def split: if_splits)

lemma login_found:
  assumes "User_findByEmail users e = Some u" "e \<noteq> []"
  shows "login crypt sign users (Some e) (Some p) =
    (if p = [] then failure 400 ''Please provide email and password''
     else if comparePassword crypt u p
     then \<lparr>status = 200, success = True, message = ''Login successful'',
           data = Some \<lparr>data_user = getPublicProfile u, data_token = generateToken sign u\<rparr>\<rparr>
     else failure 401 ''Invalid email or password'')"
  using assms by (simp add: login_def)

lemma length_example_crypt: "length (example_crypt salt (bcrypt_key s)) = 31"
  by (simp add: example_crypt_def length_bcrypt_key)

text \<open>
  Against C8 as it is stated: Ada registers with a password of 73 letters, which is a
  valid signup. A login with the password whose last letter is changed succeeds and
  returns her profile: the key that bcrypt reads of either password is the same 72
  bytes, so the hash of the altered password under the stored salt is the stored hash,
  whatever the Blowfish computation gives.
\<close>

theorem login_accepts_altered_password:
  "altered_password \<noteq> long_password \<and>
   signup signup_env0 [] (Some ''Ada'') (Some ''Ada@X.com'') (Some long_password) =
    (\<lparr>status = 201, success = True, message = ''User registered successfully'',
      data = Some \<lparr>data_user = \<lparr>profile_id = ''64a000000000000000000001'',
          profile_name = ''Ada'', profile_email = ''ada@x.com''\<rparr>,
        data_token = ada_token\<rparr>\<rparr>,
     [ada\<lparr>password := bcrypt_hash example_crypt example_salt long_password\<rparr>]) \<and>
   login example_crypt (sign_token signup_env0)
       [ada\<lparr>password := bcrypt_hash example_crypt example_salt long_password\<rparr>]
       (Some ''Ada@X.com'') (Some altered_password) =
     \<lparr>status = 200, success = True, message = ''Login successful'',
      data = Some \<lparr>data_user = \<lparr>profile_id = ''64a000000000000000000001'',
          profile_name = ''Ada'', profile_email = ''ada@x.com''\<rparr>,
        data_token = ada_token\<rparr>\<rparr>"
proof -
  let ?u = "ada\<lparr>password := bcrypt_hash example_crypt example_salt long_password\<rparr>"
  have d: "altered_password \<noteq> long_password"
    by (simp add: altered_password_def long_password_def)
  have l: "6 \<le> length long_password" by (simp add: long_password_def)
  have ne: "altered_password \<noteq> []" by (simp add: altered_password_def)
  have f: "User_findByEmail [?u] ''Ada@X.com'' = Some ?u"
    by (simp add: User_findByEmail_def lower_ada ada_def)
  have s: "length example_salt = 29" by (simp add: example_salt_def)
  have c: "comparePassword example_crypt ?u altered_password"
    unfolding comparePassword_def
    by (simp add: bcrypt_compare_hash [where crypt = example_crypt, OF s length_example_crypt]
        bcrypt_key_long_password bcrypt_key_altered_password)
  have t: "generateToken (sign_token signup_env0) ?u = ada_token"
    by (simp add: signup_env0_def token_ada)
  have "login example_crypt (sign_token signup_env0) [?u] (Some ''Ada@X.com'')
      (Some altered_password) =
     \<lparr>status = 200, success = True, message = ''Login successful'',
      data = Some \<lparr>data_user = getPublicProfile ?u, data_token = ada_token\<rparr>\<rparr>"
    using ne c t by (simp add: login_found [OF f])
  then show ?thesis
    using d signup_ada_with [OF l] by (simp add: getPublicProfile_def ada_def)
qed

text \<open>
  C8, amended. Take a signup that succeeded (status 201), where \<open>bcrypt.hash\<close> drew the
  salt string \<open>salt\<close>, of 29 characters, and the Blowfish computation gives 31
  characters. The store holds one new user, the one of the response. The stored
  credential is the hash of the password, 60 characters that begin with the salt string;
  it differs from the password unless the password is itself 60 characters that begin
  with this salt string. A login with the address and the password of the signup
  succeeds and returns this user. A login with another password fails, with the 401
  response (the 400 response if it is empty), whenever the Blowfish computation gives
  for it, under the stored salt, something else than for the password of the signup,
  which needs a difference in the 72 bytes of the key. A login with another password
  that is not empty and has the same key succeeds.
\<close>

theorem login_after_signup:
  assumes first: "signup env users body_name (Some e) (Some p) = (r, users1)"
    and ok: "status r = 201"
    and hash: "hash_password env = bcrypt_hash crypt salt"
    and salt: "length salt = 29"
    and digest: "\<And>s. length (crypt salt (bcrypt_key s)) = 31"
  shows "\<exists>u. users1 = users @ [u] \<and> map_option data_user (data r) = Some (getPublicProfile u) \<and>
     password u = bcrypt_hash crypt salt p \<and> length (password u) = 60 \<and>
     take 29 (password u) = salt \<and>
     (length p \<noteq> 60 \<or> take 29 p \<noteq> salt \<longrightarrow> password u \<noteq> p) \<and>
     login crypt sign users1 (Some e) (Some p) =
       \<lparr>status = 200, success = True, message = ''Login successful'',
        data = Some \<lparr>data_user = getPublicProfile u, data_token = generateToken sign u\<rparr>\<rparr> \<and>
     (\<forall>p'. crypt salt (bcrypt_key p') \<noteq> crypt salt (bcrypt_key p) \<longrightarrow>
        login crypt sign users1 (Some e) (Some p') =
          (if p' = [] then failure 400 ''Please provide email and password''
           else failure 401 ''Invalid email or password'')) \<and>
     (\<forall>p'. p' \<noteq> [] \<longrightarrow> bcrypt_key p' = bcrypt_key p \<longrightarrow>
        login crypt sign users1 (Some e) (Some p') = login crypt sign users1 (Some e) (Some p))"
proof -
  obtain n u where re: "emailRegex e" and none: "User_findByEmail users e = None"
    and u: "u = \<lparr>user_id = new_user_id env, name = trim n, email = toLowerCase e,
          password = hash_password env p\<rparr>"
    and u1: "users1 = users @ [u]"
    and d: "data r = Some \<lparr>data_user = getPublicProfile u,
          data_token = generateToken (sign_token env) u\<rparr>"
    using signup_created [OF first ok] by auto
  have pne: "p \<noteq> []"
    using first ok by (cases body_name) (auto simp: signup_def failure_def split: if_splits)
  have ene: "e \<noteq> []" using re by (auto simp: emailRegex_def)
  have pw: "password u = bcrypt_hash crypt salt p" by (simp add: u hash)
  have len: "length (password u) = 60"
    using salt digest [of p] by (simp add: pw bcrypt_hash_def)
  have pre: "take 29 (password u) = salt"
    using salt by (simp add: pw bcrypt_hash_def)
  have f: "User_findByEmail users1 e = Some u"
    unfolding u1 using none by (rule findByEmail_new) (simp add: u)
  have cmp: "comparePassword crypt u p' \<longleftrightarrow>
      crypt salt (bcrypt_key p') = crypt salt (bcrypt_key p)" for p'
    unfolding comparePassword_def pw
    by (rule bcrypt_compare_hash [where crypt = crypt, OF salt digest])
  have good: "login crypt sign users1 (Some e) (Some p) =
       \<lparr>status = 200, success = True, message = ''Login successful'',
        data = Some \<lparr>data_user = getPublicProfile u, data_token = generateToken sign u\<rparr>\<rparr>"
    using pne by (simp add: login_found [OF f ene] cmp)
  have bad: "login crypt sign users1 (Some e) (Some p') =
          (if p' = [] then failure 400 ''Please provide email and password''
           else failure 401 ''Invalid email or password'')"
    if "crypt salt (bcrypt_key p') \<noteq> crypt salt (bcrypt_key p)" for p'
    using that by (simp add: login_found [OF f ene] cmp)
  have same: "login crypt sign users1 (Some e) (Some p') = login crypt sign users1 (Some e) (Some p)"
    if "p' \<noteq> []" "bcrypt_key p' = bcrypt_key p" for p'
    using that pne by (simp add: login_found [OF f ene] cmp)
  have neq: "length p \<noteq> 60 \<or> take 29 p \<noteq> salt \<Longrightarrow> password u \<noteq> p"
    using len pre by auto
  show ?thesis
    using u1 d pw len pre neq good bad same by (intro exI [of _ u]) simp
qed

text \<open>
  The theorem at the registration of Ada with the password \<open>secret1\<close>: a login with it
  succeeds, one with \<open>secret2\<close> is refused, and the stored credential is not the password.
\<close>

theorem login_after_signup_witness:
  "status (fst (signup signup_env0 [] (Some ''Ada'') (Some ''Ada@X.com'') (Some ''secret1''))) = 201 \<and>
   length example_salt = 29 \<and>
   example_crypt example_salt (bcrypt_key ''secret2'') \<noteq>
     example_crypt example_salt (bcrypt_key ''secret1'') \<and>
   password ada \<noteq> ''secret1'' \<and>
   login example_crypt (sign_token signup_env0) [ada] (Some ''Ada@X.com'') (Some ''secret1'') =
     \<lparr>status = 200, success = True, message = ''Login successful'',
      data = Some \<lparr>data_user = getPublicProfile ada, data_token = ada_token\<rparr>\<rparr> \<and>
   login example_crypt (sign_token signup_env0) [ada] (Some ''Ada@X.com'') (Some ''secret2'') =
     failure 401 ''Invalid email or password''"
proof -
  have s: "status (fst (signup signup_env0 [] (Some ''Ada'') (Some ''Ada@X.com'') (Some ''secret1''))) = 201"
    by (simp add: signup_ada)
  have f: "signup signup_env0 [] (Some ''Ada'') (Some ''Ada@X.com'') (Some ''secret1'') =
     (fst (signup signup_env0 [] (Some ''Ada'') (Some ''Ada@X.com'') (Some ''secret1'')), [ada])"
    by (simp add: signup_ada)
  have h: "hash_password signup_env0 = bcrypt_hash example_crypt example_salt"
    by (simp add: signup_env0_def)
  have l: "length example_salt = 29" by (simp add: example_salt_def)
  have k1: "take 8 (bcrypt_key ''secret1'') = [115, 101, 99, 114, 101, 116, 49, 0]"
    by (subst take_bcrypt_key) (simp_all add: utf8_def)
  have k2: "take 8 (bcrypt_key ''secret2'') = [115, 101, 99, 114, 101, 116, 50, 0]"
    by (subst take_bcrypt_key) (simp_all add: utf8_def)
  have "take 8 (example_crypt example_salt (bcrypt_key ''secret2'')) \<noteq>
     take 8 (example_crypt example_salt (bcrypt_key ''secret1''))"
    unfolding example_crypt_def take_map by (simp add: k1 k2)
  then have d: "example_crypt example_salt (bcrypt_key ''secret2'') \<noteq>
     example_crypt example_salt (bcrypt_key ''secret1'')"
    by metis
  obtain u where u: "[ada] = [] @ [u]"
    and n: "length ''secret1'' \<noteq> 60 \<or> take 29 ''secret1'' \<noteq> example_salt \<longrightarrow> password u \<noteq> ''secret1''"
    and g: "login example_crypt (sign_token signup_env0) [ada] (Some ''Ada@X.com'') (Some ''secret1'') =
       \<lparr>status = 200, success = True, message = ''Login successful'',
        data = Some \<lparr>data_user = getPublicProfile u,
          data_token = generateToken (sign_token signup_env0) u\<rparr>\<rparr>"
    and b: "\<forall>p'. example_crypt example_salt (bcrypt_key p') \<noteq>
          example_crypt example_salt (bcrypt_key ''secret1'') \<longrightarrow>
        login example_crypt (sign_token signup_env0) [ada] (Some ''Ada@X.com'') (Some p') =
          (if p' = [] then failure 400 ''Please provide email and password''
           else failure 401 ''Invalid email or password'')"
    using login_after_signup [OF f s h l length_example_crypt, of "sign_token signup_env0"]
    by blast
  have ua: "u = ada" using u by simp
  have t: "generateToken (sign_token signup_env0) ada = ada_token"
    using token_ada [of "password ada"] by (simp add: signup_env0_def)
  have 1: "password ada \<noteq> ''secret1''" using n unfolding ua by simp
  have 2: "login example_crypt (sign_token signup_env0) [ada] (Some ''Ada@X.com'') (Some ''secret1'') =
     \<lparr>status = 200, success = True, message = ''Login successful'',
      data = Some \<lparr>data_user = getPublicProfile ada, data_token = ada_token\<rparr>\<rparr>"
    using g unfolding ua t .
  have 3: "login example_crypt (sign_token signup_env0) [ada] (Some ''Ada@X.com'') (Some ''secret2'') =
     failure 401 ''Invalid email or password''"
    using b d by simp
  show ?thesis using s l d 1 2 3 by blast
qed

end
